theory Spec2Isabelle
  imports Complex_Main "HOL-Library.Log_Nat"
begin

section \<open>Data model (types.ts)\<close>

text \<open>
  The amounts of the form (quantities, costs, totals) are modelled as exact rationals:
  their rounding and NaN are outside the model. The column index of \<open>getColIndex\<close> is
  computed in doubles, rounding included (see \<open>round_double\<close>). A JavaScript string is a
  list of 8-bit characters, read as the UTF-16 code units below 256.
\<close>

type_synonym number = rat

record LineItem =
  item_id :: string
  quantity :: number
  description :: string
  cost :: number
  total :: number

record InvoiceData =
  date :: string
  invoiceNumber :: string
  deliveryLocation :: string
  vendorName :: string
  vendorEmail :: string
  vendorSignerName :: "string option"
  receiverSignerName :: "string option"
  deliveries :: "LineItem list"
  returns :: "LineItem list"

record FormErrors =
  err_vendorName :: "string option"
  err_vendorEmail :: "string option"
  err_invoiceNumber :: "string option"
  err_date :: "string option"

record Vendor =
  name :: string
  email :: string

section \<open>Line items (App.tsx)\<close>

text \<open>The parameter \<open>type: 'deliveries' | 'returns'\<close> and the computed key \<open>[type]\<close>.\<close>

datatype list_type = Deliveries | Returns

fun get_list :: "list_type \<Rightarrow> InvoiceData \<Rightarrow> LineItem list" where
  "get_list Deliveries prev = deliveries prev"
| "get_list Returns prev = returns prev"

fun set_list :: "list_type \<Rightarrow> LineItem list \<Rightarrow> InvoiceData \<Rightarrow> InvoiceData" where
  "set_list Deliveries items prev = prev\<lparr>deliveries := items\<rparr>"
| "set_list Returns items prev = prev\<lparr>returns := items\<rparr>"

text \<open>
  \<open>initialInvoiceState\<close>: the date comes from the clock and the invoice number from
  \<open>generateInvoiceNumber\<close> (clock and \<open>Math.random\<close>); both are parameters.
\<close>

definition initialInvoiceState :: "string \<Rightarrow> string \<Rightarrow> InvoiceData" where
  "initialInvoiceState today generated =
     \<lparr>date = today, invoiceNumber = generated, deliveryLocation = ''Viendong'',
      vendorName = '''', vendorEmail = '''', vendorSignerName = Some '''',
      receiverSignerName = Some '''', deliveries = [], returns = []\<rparr>"

text \<open>\<open>addLineItem\<close>; the fresh \<open>crypto.randomUUID()\<close> is the parameter \<open>uuid\<close>.\<close>

definition addLineItem :: "list_type \<Rightarrow> string \<Rightarrow> InvoiceData \<Rightarrow> InvoiceData" where
  "addLineItem type uuid prev =
     (let newItem = \<lparr>item_id = uuid, quantity = 1, description = '''', cost = 0, total = 0\<rparr>
      in set_list type (get_list type prev @ [newItem]) prev)"

definition removeLineItem :: "list_type \<Rightarrow> string \<Rightarrow> InvoiceData \<Rightarrow> InvoiceData" where
  "removeLineItem type i prev =
     set_list type (filter (\<lambda>item. item_id item \<noteq> i) (get_list type prev)) prev"

text \<open>
  The pair \<open>(field: keyof LineItem, value: string | number)\<close> of \<open>updateLineItem\<close>, for
  the calls whose value has the type that the interface \<open>LineItem\<close> declares for the
  field (as at every call site); \<open>Number(value)\<close> is then the value itself.
\<close>

datatype field_value =
  Set_id string
| Set_quantity number
| Set_description string
| Set_cost number
| Set_total number

text \<open>\<open>Number(value)\<close> on a value that is a number: the value itself.\<close>

definition Number :: "number \<Rightarrow> number" where
  "Number value = value"

text \<open>
  The body of the \<open>map\<close> callback for the item whose id matches:
  \<open>updatedItem = { ...item, [field]: value }\<close>, then the recalculation of
  \<open>updatedItem.total\<close> when the field is \<open>quantity\<close> or \<open>cost\<close>.
\<close>

fun update_item :: "field_value \<Rightarrow> LineItem \<Rightarrow> LineItem" where
  "update_item (Set_id v) item = item\<lparr>item_id := v\<rparr>"
| "update_item (Set_quantity v) item =
     (let updatedItem = item\<lparr>quantity := v\<rparr>; qty = Number v; c = cost item
      in updatedItem\<lparr>total := qty * c\<rparr>)"
| "update_item (Set_description v) item = item\<lparr>description := v\<rparr>"
| "update_item (Set_cost v) item =
     (let updatedItem = item\<lparr>cost := v\<rparr>; qty = quantity item; c = Number v
      in updatedItem\<lparr>total := qty * c\<rparr>)"
| "update_item (Set_total v) item = item\<lparr>total := v\<rparr>"

definition updateLineItem ::
  "list_type \<Rightarrow> string \<Rightarrow> field_value \<Rightarrow> InvoiceData \<Rightarrow> InvoiceData" where
  "updateLineItem type i fv prev =
     (let updatedItems =
            map (\<lambda>item. if item_id item = i then update_item fv item else item)
              (get_list type prev)
      in set_list type updatedItems prev)"

section \<open>Totals (App.tsx, pdfService)\<close>

definition calculateSectionTotal :: "LineItem list \<Rightarrow> number" where
  "calculateSectionTotal items = foldl (\<lambda>acc curr. acc + total curr) 0 items"

definition deliveryTotal :: "InvoiceData \<Rightarrow> number" where
  "deliveryTotal formData = calculateSectionTotal (deliveries formData)"

definition returnsTotal :: "InvoiceData \<Rightarrow> number" where
  "returnsTotal formData = calculateSectionTotal (returns formData)"

definition netTotal :: "InvoiceData \<Rightarrow> number" where
  "netTotal formData = deliveryTotal formData - returnsTotal formData"

text \<open>The summary section of \<open>generateInvoicePDF\<close>.\<close>

definition pdf_deliveryTotal :: "InvoiceData \<Rightarrow> number" where
  "pdf_deliveryTotal data = foldl (\<lambda>sum item. sum + total item) 0 (deliveries data)"

definition pdf_returnsTotal :: "InvoiceData \<Rightarrow> number" where
  "pdf_returnsTotal data = foldl (\<lambda>sum item. sum + total item) 0 (returns data)"

definition pdf_netTotal :: "InvoiceData \<Rightarrow> number" where
  "pdf_netTotal data = pdf_deliveryTotal data - pdf_returnsTotal data"

section \<open>Strings\<close>

text \<open>
  The white space of \<open>String.prototype.trim\<close> and of the regular expression class
  \<open>\s\<close>, within the 8-bit range: tab, line feed, vertical tab, form feed, carriage
  return, space and the no-break space.
\<close>

definition whitespace :: "char \<Rightarrow> bool" where
  "whitespace c \<longleftrightarrow>
     c \<in> {CHR 0x09, CHR 0x0A, CHR 0x0B, CHR 0x0C, CHR 0x0D, CHR 0x20, CHR 0xA0}"

definition trim :: "string \<Rightarrow> string" where
  "trim s = rev (dropWhile whitespace (rev (dropWhile whitespace s)))"

definition is_upper :: "char \<Rightarrow> bool" where
  "is_upper c \<longleftrightarrow> 65 \<le> (of_char c :: nat) \<and> (of_char c :: nat) \<le> 90"

definition is_lower :: "char \<Rightarrow> bool" where
  "is_lower c \<longleftrightarrow> 97 \<le> (of_char c :: nat) \<and> (of_char c :: nat) \<le> 122"

text \<open>The class \<open>[a-zA-Z]\<close>.\<close>

definition is_letter :: "char \<Rightarrow> bool" where
  "is_letter c \<longleftrightarrow> is_lower c \<or> is_upper c"

text \<open>
  \<open>toUpperCase\<close> on the strings \<open>getColIndex\<close> passes to it, which hold letters of
  \<open>[a-zA-Z]\<close> only.
\<close>

definition toUpperCase :: "string \<Rightarrow> string" where
  "toUpperCase s = map (\<lambda>c. if is_lower c then char_of ((of_char c :: nat) - 32) else c) s"

text \<open>
  \<open>toLowerCase\<close> within the 8-bit range: the letters A to Z and the capital letters of
  Latin-1 (0xC0 to 0xDE but the multiplication sign 0xD7) move up by 32.
\<close>

definition toLowerCase :: "string \<Rightarrow> string" where
  "toLowerCase s =
     map (\<lambda>c. if is_upper c \<or> (192 \<le> (of_char c :: nat) \<and> (of_char c :: nat) \<le> 222
                                \<and> (of_char c :: nat) \<noteq> 215)
               then char_of ((of_char c :: nat) + 32) else c) s"

section \<open>Column letters (App.tsx)\<close>

text \<open>
  The numbers of \<open>getColIndex\<close> are doubles whose values are whole: an integer, or an
  infinity once the arithmetic overflows.
\<close>

datatype jsnum = Finite int | Infinity | NegInfinity

text \<open>
  The double nearest to an integer: the integer itself below \<open>2^53\<close>; above, the
  nearest multiple of the unit in the last place of its 53-bit significand, a tie going
  to the even significand; an infinity from \<open>2^1024\<close> on.
\<close>

definition round_double :: "int \<Rightarrow> jsnum" where
  "round_double n =
     (if \<bar>n\<bar> < 2 ^ 53 then Finite n
      else
        (let ulp = 2 ^ nat (bitlen \<bar>n\<bar> - 53);
             q = \<bar>n\<bar> div ulp;
             r = \<bar>n\<bar> mod ulp;
             significand = (if 2 * r > ulp \<or> (2 * r = ulp \<and> odd q) then q + 1 else q);
             magnitude = significand * ulp
         in if magnitude \<ge> 2 ^ 1024 then (if n > 0 then Infinity else NegInfinity)
            else Finite (sgn n * magnitude)))"

text \<open>\<open>sum *= 26\<close> and \<open>sum += k\<close> (also \<open>sum - 1\<close>) for a whole number \<open>k\<close>.\<close>

fun times26 :: "jsnum \<Rightarrow> jsnum" where
  "times26 (Finite n) = round_double (n * 26)"
| "times26 Infinity = Infinity"
| "times26 NegInfinity = NegInfinity"

fun plus_int :: "jsnum \<Rightarrow> int \<Rightarrow> jsnum" where
  "plus_int (Finite n) k = round_double (n + k)"
| "plus_int Infinity k = Infinity"
| "plus_int NegInfinity k = NegInfinity"

definition getColIndex :: "string \<Rightarrow> jsnum" where
  "getColIndex col =
     (let clean = toUpperCase (filter is_letter col);
          sum = foldl (\<lambda>sum ch. plus_int (times26 sum)
                                   (int (of_char ch) - int (of_char (CHR ''A'')) + 1))
                  (Finite 0) clean
      in plus_int sum (- 1))"

section \<open>Vendor sheet (App.tsx)\<close>

text \<open>
  The loop over the characters of one line, with its three variables \<open>row\<close>,
  \<open>current\<close> and \<open>inQuote\<close>; after the loop the last field is pushed.
\<close>

fun splitLoop :: "string \<Rightarrow> string list \<Rightarrow> string \<Rightarrow> bool \<Rightarrow> string list" where
  "splitLoop [] row current inQuote = row @ [trim current]"
| "splitLoop (char # rest) row current inQuote =
     (if char = CHR 0x22 then splitLoop rest row current (\<not> inQuote)
      else if char = CHR '','' \<and> \<not> inQuote then splitLoop rest (row @ [trim current]) [] inQuote
      else splitLoop rest row (current @ [char]) inQuote)"

definition splitLine :: "string \<Rightarrow> string list" where
  "splitLine line = splitLoop line [] [] False"

text \<open>\<open>csvText.split('\n')\<close>.\<close>

fun split_newline :: "string \<Rightarrow> string list" where
  "split_newline [] = [[]]"
| "split_newline (c # cs) =
     (if c = CHR 0x0A then [] # split_newline cs
      else (case split_newline cs of [] \<Rightarrow> [[c]] | l # ls \<Rightarrow> (c # l) # ls))"

definition parseRows :: "string \<Rightarrow> string list list" where
  "parseRows csvText = map splitLine (split_newline csvText)"

text \<open>\<open>cols[idx]\<close>: \<open>undefined\<close> (here \<open>None\<close>) outside the array.\<close>

fun index_opt :: "'a list \<Rightarrow> jsnum \<Rightarrow> 'a option" where
  "index_opt xs (Finite i) = (if 0 \<le> i \<and> i < int (length xs) then Some (xs ! nat i) else None)"
| "index_opt xs Infinity = None"
| "index_opt xs NegInfinity = None"

text \<open>\<open>.replace(/^"|"$/g, '')\<close>: one leading and one trailing double quote go.\<close>

definition strip_quotes :: "string \<Rightarrow> string" where
  "strip_quotes s =
     (let s1 = (case s of [] \<Rightarrow> [] | c # cs \<Rightarrow> if c = CHR 0x22 then cs else s)
      in if s1 \<noteq> [] \<and> last s1 = CHR 0x22 then butlast s1 else s1)"

definition cleanCell :: "string list \<Rightarrow> jsnum \<Rightarrow> string" where
  "cleanCell cols idx =
     (case index_opt cols idx of None \<Rightarrow> [] | Some cell \<Rightarrow> trim (strip_quotes cell))"

definition loadVendors :: "jsnum \<Rightarrow> jsnum \<Rightarrow> string list list \<Rightarrow> Vendor list" where
  "loadVendors nameIdx emailIdx rows =
     map snd
       (filter (\<lambda>(index, v). name v \<noteq> [] \<and> toLowerCase (name v) \<noteq> ''vendor name'' \<and> index > 0)
          (enumerate 0
             (map (\<lambda>cols. \<lparr>name = cleanCell cols nameIdx, email = cleanCell cols emailIdx\<rparr>) rows)))"

text \<open>
  What the network gives: \<open>fetch\<close> rejects with an error (its message), or resolves to
  a response with its \<open>ok\<close> flag and a body that \<open>text()\<close> reads or fails to read.
\<close>

record response =
  ok :: bool
  text_of :: "string + string"

type_synonym fetch_result = "string + response"

section \<open>OCR extraction (geminiService.ts)\<close>

text \<open>
  The parsed JSON reply. A field is \<open>None\<close> when the reply lacks it; a number field is
  also \<open>None\<close> when \<open>Number\<close> gives NaN for it.
\<close>

record raw_item =
  raw_quantity :: "number option"
  raw_description :: "string option"
  raw_cost :: "number option"

record raw_data =
  raw_invoiceNumber :: "string option"
  raw_date :: "string option"
  raw_vendorName :: "string option"
  raw_vendorEmail :: "string option"
  raw_deliveries :: "raw_item list option"

text \<open>The \<open>Partial<InvoiceData>\<close> that \<open>extractInvoiceData\<close> returns: six keys.\<close>

record Extracted =
  x_invoiceNumber :: string
  x_date :: string
  x_vendorName :: string
  x_vendorEmail :: string
  x_deliveries :: "LineItem list"
  x_returns :: "LineItem list"

text \<open>\<open>v || d\<close> on a string that may be missing, and \<open>Number(v) || 0\<close>.\<close>

definition str_or :: "string option \<Rightarrow> string \<Rightarrow> string" where
  "str_or v d = (case v of None \<Rightarrow> d | Some s \<Rightarrow> if s = [] then d else s)"

definition number_or_zero :: "number option \<Rightarrow> number" where
  "number_or_zero v = (case v of None \<Rightarrow> 0 | Some n \<Rightarrow> if n = 0 then 0 else n)"

text \<open>
  \<open>extractInvoiceData\<close>. Parameters: today's date, the ids that \<open>crypto.randomUUID()\<close>
  gives (the k-th item gets \<open>uuid k\<close>), the API key of the environment, and the reply:
  \<open>Inl\<close> an error thrown by the call or by \<open>JSON.parse\<close>, \<open>Inr None\<close> an empty
  \<open>response.text\<close>, \<open>Inr (Some rawData)\<close> the parsed data. Errors are rethrown.
\<close>

definition extractInvoiceData ::
  "string \<Rightarrow> (nat \<Rightarrow> string) \<Rightarrow> string option \<Rightarrow> string + raw_data option \<Rightarrow> string + Extracted" where
  "extractInvoiceData today uuid api_key reply =
     (if api_key = None \<or> api_key = Some [] then Inl ''API Key is missing''
      else case reply of
        Inl e \<Rightarrow> Inl e
      | Inr None \<Rightarrow> Inl ''No data returned from Gemini''
      | Inr (Some rawData) \<Rightarrow>
          Inr \<lparr>x_invoiceNumber = str_or (raw_invoiceNumber rawData) [],
               x_date = str_or (raw_date rawData) today,
               x_vendorName = str_or (raw_vendorName rawData) [],
               x_vendorEmail = str_or (raw_vendorEmail rawData) [],
               x_deliveries =
                 map (\<lambda>(k, item).
                        \<lparr>item_id = uuid k,
                         quantity = number_or_zero (raw_quantity item),
                         description = str_or (raw_description item) [],
                         cost = number_or_zero (raw_cost item),
                         total = number_or_zero (raw_quantity item) * number_or_zero (raw_cost item)\<rparr>)
                   (enumerate 0 (case raw_deliveries rawData of None \<Rightarrow> [] | Some items \<Rightarrow> items)),
               x_returns = []\<rparr>)"

section \<open>The state of the component (App.tsx)\<close>

record app_state =
  formData :: InvoiceData
  errors :: FormErrors
  isProcessingOCR :: bool
  ocrError :: "string option"
  vendorSignature :: "string option"
  receiverSignature :: "string option"
  activeSection :: "string option"
  vendors :: "Vendor list"
  sheetId :: string
  sheetName :: string
  nameCol :: string
  emailCol :: string
  showSheetConfig :: bool
  isFetchingVendors :: bool
  sheetError :: "string option"

definition no_errors :: FormErrors where
  "no_errors = \<lparr>err_vendorName = None, err_vendorEmail = None, err_invoiceNumber = None,
                 err_date = None\<rparr>"

definition initial_state :: "string \<Rightarrow> string \<Rightarrow> app_state" where
  "initial_state today generated =
     \<lparr>formData = initialInvoiceState today generated, errors = no_errors,
      isProcessingOCR = False, ocrError = None, vendorSignature = None,
      receiverSignature = None, activeSection = Some ''details'', vendors = [],
      sheetId = ''1leRhIc6X9whceYw9p2uIo8rLyL-mnvP-GMXEkREFb9w'', sheetName = ''DeliveryApp'',
      nameCol = ''A'', emailCol = ''B'', showSheetConfig = False, isFetchingVendors = False,
      sheetError = None\<rparr>"

definition setFormData :: "(InvoiceData \<Rightarrow> InvoiceData) \<Rightarrow> app_state \<Rightarrow> app_state" where
  "setFormData f s = s\<lparr>formData := f (formData s)\<rparr>"

section \<open>Fetching the vendors (App.tsx)\<close>

text \<open>
  The body of the \<open>try\<close> block of \<open>fetchVendorsFromSheet\<close>: \<open>Inl\<close> the message of
  the error it throws, \<open>Inr\<close> the vendors it loads.
\<close>

definition fetch_body :: "app_state \<Rightarrow> fetch_result \<Rightarrow> string + Vendor list" where
  "fetch_body s fetched =
     (let nameIdx = getColIndex (nameCol s); emailIdx = getColIndex (emailCol s)
      in case fetched of
           Inl e \<Rightarrow> Inl e
         | Inr csvResponse \<Rightarrow>
             if \<not> ok csvResponse
             then Inl (''Failed to connect. Ensure the Google Sheet is 'Public' '' @
                       ''(Anyone with the link) and the Sheet Name is correct.'')
             else (case text_of csvResponse of
                     Inl e \<Rightarrow> Inl e
                   | Inr csvText \<Rightarrow>
                       (let loadedVendors = loadVendors nameIdx emailIdx (parseRows csvText)
                        in if length loadedVendors = 0
                           then Inl ''No valid vendors found. Check column letters.''
                           else Inr loadedVendors)))"

text \<open>
  \<open>fetchVendorsFromSheet\<close>: the guard and its early return, then the \<open>try\<close>, the
  \<open>catch\<close> (\<open>err.message || "Failed to fetch data."\<close>) and the \<open>finally\<close>.
\<close>

definition fetchVendorsFromSheet :: "app_state \<Rightarrow> fetch_result \<Rightarrow> app_state" where
  "fetchVendorsFromSheet s fetched =
     (if sheetId s = [] \<or> sheetName s = []
      then s\<lparr>sheetError := Some ''Please enter Spreadsheet ID and Sheet Name''\<rparr>
      else
        (let s1 = s\<lparr>isFetchingVendors := True, sheetError := None\<rparr>;
             s2 = (case fetch_body s fetched of
                     Inr loadedVendors \<Rightarrow> s1\<lparr>vendors := loadedVendors, showSheetConfig := False\<rparr>
                   | Inl message \<Rightarrow>
                       s1\<lparr>sheetError :=
                            Some (if message = [] then ''Failed to fetch data.'' else message)\<rparr>)
         in s2\<lparr>isFetchingVendors := False\<rparr>))"

section \<open>Image upload (App.tsx)\<close>

text \<open>The updater that \<open>handleImageUpload\<close> passes to \<open>setFormData\<close>.\<close>

definition mergeExtracted :: "Extracted \<Rightarrow> InvoiceData \<Rightarrow> InvoiceData" where
  "mergeExtracted extractedData prev =
     prev\<lparr>date := x_date extractedData,
          vendorName := x_vendorName extractedData,
          vendorEmail := x_vendorEmail extractedData,
          returns := x_returns extractedData,
          invoiceNumber :=
            (if x_invoiceNumber extractedData \<noteq> [] then x_invoiceNumber extractedData
             else invoiceNumber prev),
          deliveries :=
            (if length (x_deliveries extractedData) \<noteq> 0 then x_deliveries extractedData
             else deliveries prev)\<rparr>"

text \<open>
  \<open>handleImageUpload\<close>: \<open>None\<close> when no file was chosen, else what
  \<open>extractInvoiceData\<close> gave for the file.
\<close>

definition handleImageUpload :: "app_state \<Rightarrow> (string + Extracted) option \<Rightarrow> app_state" where
  "handleImageUpload s outcome =
     (case outcome of
        None \<Rightarrow> s
      | Some result \<Rightarrow>
          (let s1 = s\<lparr>isProcessingOCR := True, ocrError := None\<rparr>;
               s2 = (case result of
                       Inr extractedData \<Rightarrow>
                         (setFormData (mergeExtracted extractedData) s1)
                           \<lparr>activeSection := Some ''details''\<rparr>
                     | Inl err \<Rightarrow>
                         s1\<lparr>ocrError :=
                              Some ''Failed to extract data. Please try again or fill manually.''\<rparr>)
           in s2\<lparr>isProcessingOCR := False\<rparr>))"

section \<open>Validation and submission (App.tsx)\<close>

text \<open>
  Anchored regular expressions made of character classes, each taken once or one or
  more times: all that \<open>emailRegex\<close> uses. \<open>regex_test r s\<close> is \<open>/^r$/.test(s)\<close>.
\<close>

datatype regex_item = Class "char \<Rightarrow> bool" | ClassPlus "char \<Rightarrow> bool"

fun regex_test :: "regex_item list \<Rightarrow> string \<Rightarrow> bool" where
  "regex_test [] s = (s = [])"
| "regex_test (Class p # r) [] = False"
| "regex_test (Class p # r) (c # cs) = (p c \<and> regex_test r cs)"
| "regex_test (ClassPlus p # r) [] = False"
| "regex_test (ClassPlus p # r) (c # cs) =
     (p c \<and> (regex_test (ClassPlus p # r) cs \<or> regex_test r cs))"

text \<open>The class \<open>[^\s@]\<close>.\<close>

definition not_space_at :: "char \<Rightarrow> bool" where
  "not_space_at c \<longleftrightarrow> \<not> whitespace c \<and> c \<noteq> CHR ''@''"

definition emailRegex :: "regex_item list" where
  "emailRegex =
     [ClassPlus not_space_at, Class (\<lambda>c. c = CHR ''@''), ClassPlus not_space_at,
      Class (\<lambda>c. c = CHR ''.''), ClassPlus not_space_at]"

definition Object_keys :: "FormErrors \<Rightarrow> string list" where
  "Object_keys e =
     (if err_vendorName e \<noteq> None then [''vendorName''] else []) @
     (if err_invoiceNumber e \<noteq> None then [''invoiceNumber''] else []) @
     (if err_vendorEmail e \<noteq> None then [''vendorEmail''] else []) @
     (if err_date e \<noteq> None then [''date''] else [])"

definition validateForm :: "app_state \<Rightarrow> app_state \<times> bool" where
  "validateForm s =
     (let e0 = no_errors;
          e1 = (if trim (vendorName (formData s)) = []
                then e0\<lparr>err_vendorName := Some ''Vendor name is required''\<rparr> else e0);
          e2 = (if trim (invoiceNumber (formData s)) = []
                then e1\<lparr>err_invoiceNumber := Some ''Invoice number is required''\<rparr> else e1);
          newErrors =
            (if vendorEmail (formData s) \<noteq> [] \<and> \<not> regex_test emailRegex (vendorEmail (formData s))
             then e2\<lparr>err_vendorEmail := Some ''Invalid email format''\<rparr>
             else if vendorEmail (formData s) = []
             then e2\<lparr>err_vendorEmail := Some ''Vendor email is required''\<rparr>
             else e2)
      in (s\<lparr>errors := newErrors\<rparr>, length (Object_keys newErrors) = 0))"

text \<open>What the user and the PDF service see of \<open>handleSubmit\<close>, in order.\<close>

datatype effect =
  Alert string
| GeneratePDF InvoiceData "string option" "string option"
| ConsoleError

text \<open>\<open>!v\<close> for a \<open>string | null\<close>.\<close>

definition falsy :: "string option \<Rightarrow> bool" where
  "falsy v \<longleftrightarrow> v = None \<or> v = Some []"

text \<open>
  \<open>handleSubmit\<close>; \<open>pdf_throws\<close> says whether the call of \<open>generateInvoicePDF\<close>
  throws.
\<close>

definition handleSubmit :: "app_state \<Rightarrow> bool \<Rightarrow> app_state \<times> effect list" where
  "handleSubmit s pdf_throws =
     (let (s1, valid) = validateForm s
      in if \<not> valid then (s1, [Alert ''Please fix errors before submitting.''])
         else if falsy (vendorSignature s) \<or> falsy (receiverSignature s)
         then (s1\<lparr>activeSection := Some ''signatures''\<rparr>, [Alert ''Both signatures are required.''])
         else (s1,
               GeneratePDF (formData s) (vendorSignature s) (receiverSignature s) #
               (if pdf_throws then [ConsoleError, Alert ''Error generating PDF. Please try again.'']
                else [Alert (''Form submitted! Sending email to '' @ vendorEmail (formData s) @
                             ''... (Simulated)'')])))"

section \<open>Header inputs (App.tsx)\<close>

text \<open>The \<open>name\<close> attributes of the inputs that \<open>handleInputChange\<close> serves.\<close>

datatype input_name =
  In_date | In_invoiceNumber | In_vendorName | In_vendorEmail | In_deliveryLocation
| In_vendorSignerName | In_receiverSignerName

text \<open>\<open>{ ...prev, [name]: value }\<close>.\<close>

fun set_input :: "input_name \<Rightarrow> string \<Rightarrow> InvoiceData \<Rightarrow> InvoiceData" where
  "set_input In_date v prev = prev\<lparr>date := v\<rparr>"
| "set_input In_invoiceNumber v prev = prev\<lparr>invoiceNumber := v\<rparr>"
| "set_input In_vendorName v prev = prev\<lparr>vendorName := v\<rparr>"
| "set_input In_vendorEmail v prev = prev\<lparr>vendorEmail := v\<rparr>"
| "set_input In_deliveryLocation v prev = prev\<lparr>deliveryLocation := v\<rparr>"
| "set_input In_vendorSignerName v prev = prev\<lparr>vendorSignerName := Some v\<rparr>"
| "set_input In_receiverSignerName v prev = prev\<lparr>receiverSignerName := Some v\<rparr>"

text \<open>\<open>errors[name]\<close> and \<open>{ ...prev, [name]: undefined }\<close>.\<close>

fun error_of :: "input_name \<Rightarrow> FormErrors \<Rightarrow> string option" where
  "error_of In_date e = err_date e"
| "error_of In_invoiceNumber e = err_invoiceNumber e"
| "error_of In_vendorName e = err_vendorName e"
| "error_of In_vendorEmail e = err_vendorEmail e"
| "error_of input e = None"

fun clear_error :: "input_name \<Rightarrow> FormErrors \<Rightarrow> FormErrors" where
  "clear_error In_date e = e\<lparr>err_date := None\<rparr>"
| "clear_error In_invoiceNumber e = e\<lparr>err_invoiceNumber := None\<rparr>"
| "clear_error In_vendorName e = e\<lparr>err_vendorName := None\<rparr>"
| "clear_error In_vendorEmail e = e\<lparr>err_vendorEmail := None\<rparr>"
| "clear_error input e = e"

definition handleInputChange :: "input_name \<Rightarrow> string \<Rightarrow> app_state \<Rightarrow> app_state" where
  "handleInputChange input v s =
     (let s1 = setFormData (set_input input v) s;
          s2 = (if input = In_vendorName \<and> length (vendors s) > 0
                then (case find (\<lambda>vendor. toLowerCase (name vendor) = toLowerCase v) (vendors s) of
                        Some matchedVendor \<Rightarrow>
                          setFormData
                            (\<lambda>prev. prev\<lparr>vendorName := v, vendorEmail := email matchedVendor\<rparr>) s1
                      | None \<Rightarrow> s1)
                else s1)
      in if error_of input (errors s) \<noteq> None \<and> error_of input (errors s) \<noteq> Some []
         then s2\<lparr>errors := clear_error input (errors s2)\<rparr> else s2)"

text \<open>\<open>regenerateInvoiceNumber\<close>; the generated number is a parameter.\<close>

definition regenerateInvoiceNumber :: "string \<Rightarrow> app_state \<Rightarrow> app_state" where
  "regenerateInvoiceNumber generated s =
     setFormData (\<lambda>prev. prev\<lparr>invoiceNumber := generated\<rparr>) s"

section \<open>Sequences of operations\<close>

text \<open>
  What the user can do to the form data: the header inputs, the button that regenerates
  the invoice number, the buttons that add and remove a line item, the three inputs of a
  line item row, which call \<open>updateLineItem\<close> on \<open>description\<close> with the text and on
  \<open>quantity\<close> and \<open>cost\<close> with \<open>Number(e.target.value)\<close>, and the image upload;
  and the vendor fetch, whose result the vendor name input reads. No call passes the
  field \<open>id\<close> or \<open>total\<close> to \<open>updateLineItem\<close>.
\<close>

datatype action =
  InputChange input_name string
| RegenerateInvoiceNumber string
| FetchVendors fetch_result
| AddLineItem list_type string
| RemoveLineItem list_type string
| UpdateDescription list_type string string
| UpdateQuantity list_type string number
| UpdateCost list_type string number
| ImageUpload string "nat \<Rightarrow> string" "string option" "string + raw_data option"

fun perform :: "action \<Rightarrow> app_state \<Rightarrow> app_state" where
  "perform (InputChange input v) s = handleInputChange input v s"
| "perform (RegenerateInvoiceNumber generated) s = regenerateInvoiceNumber generated s"
| "perform (FetchVendors fetched) s = fetchVendorsFromSheet s fetched"
| "perform (AddLineItem type uuid) s = setFormData (addLineItem type uuid) s"
| "perform (RemoveLineItem type i) s = setFormData (removeLineItem type i) s"
| "perform (UpdateDescription type i v) s =
     setFormData (updateLineItem type i (Set_description v)) s"
| "perform (UpdateQuantity type i v) s =
     setFormData (updateLineItem type i (Set_quantity (Number v))) s"
| "perform (UpdateCost type i v) s = setFormData (updateLineItem type i (Set_cost (Number v))) s"
| "perform (ImageUpload today uuid api_key reply) s =
     handleImageUpload s (Some (extractInvoiceData today uuid api_key reply))"

definition run :: "app_state \<Rightarrow> action list \<Rightarrow> app_state" where
  "run s acts = foldl (\<lambda>s a. perform a s) s acts"


section \<open>Properties\<close>

text \<open>A line item whose stored total is its quantity times its cost.\<close>

definition item_total_ok :: "LineItem \<Rightarrow> bool" where
  "item_total_ok item \<longleftrightarrow> total item = quantity item * cost item"

text \<open>Every line item of both lists is so.\<close>

definition line_totals_ok :: "InvoiceData \<Rightarrow> bool" where
  "line_totals_ok fd \<longleftrightarrow> list_all item_total_ok (deliveries fd) \<and> list_all item_total_ok (returns fd)"

text \<open>An invoice with two deliveries and one return, for the examples.\<close>

definition example_invoice :: InvoiceData where
  "example_invoice =
     \<lparr>date = ''2024-05-01'', invoiceNumber = ''INV-240501-0007'', deliveryLocation = ''Viendong'',
      vendorName = ''Acme'', vendorEmail = ''sales@acme.example'', vendorSignerName = None,
      receiverSignerName = None,
      deliveries = [\<lparr>item_id = ''a'', quantity = 2, description = ''rice'', cost = 3, total = 6\<rparr>,
                    \<lparr>item_id = ''b'', quantity = 1, description = ''tea'', cost = 5/2, total = 5/2\<rparr>],
      returns = [\<lparr>item_id = ''c'', quantity = 1, description = ''crate'', cost = 4, total = 4\<rparr>]\<rparr>"

text \<open>The header fields of two invoices agree.\<close>

definition same_header :: "InvoiceData \<Rightarrow> InvoiceData \<Rightarrow> bool" where
  "same_header a b \<longleftrightarrow>
     date a = date b \<and> invoiceNumber a = invoiceNumber b \<and>
     deliveryLocation a = deliveryLocation b \<and> vendorName a = vendorName b \<and>
     vendorEmail a = vendorEmail b \<and> vendorSignerName a = vendorSignerName b \<and>
     receiverSignerName a = receiverSignerName b"

fun other_list :: "list_type \<Rightarrow> list_type" where
  "other_list Deliveries = Returns"
| "other_list Returns = Deliveries"


text \<open>The place of a letter in the alphabet, from 1, whatever its case.\<close>

definition letter_number :: "char \<Rightarrow> int" where
  "letter_number c = (if is_lower c then int (of_char c) - 96 else int (of_char c) - 64)"

text \<open>
  Bijective base 26: the digits, each from 1 to 26, most significant first.
\<close>

definition bijective26 :: "int list \<Rightarrow> int" where
  "bijective26 ds = (\<Sum>k<length ds. ds ! k * 26 ^ (length ds - 1 - k))"

text \<open>
  The fields of a line. A comma is a separator when the number of double quotes before
  it is even, so that a quote left open runs to the end of the line; the line is cut at
  the separators, and each piece loses its double quotes and the white space at its
  ends.
\<close>

definition quotes_before :: "string \<Rightarrow> nat \<Rightarrow> nat" where
  "quotes_before line i = length (filter (\<lambda>c. c = CHR 0x22) (take i line))"

definition is_separator :: "string \<Rightarrow> nat \<Rightarrow> bool" where
  "is_separator line i \<longleftrightarrow> i < length line \<and> line ! i = CHR '','' \<and> even (quotes_before line i)"

definition separators :: "string \<Rightarrow> nat list" where
  "separators line = filter (is_separator line) [0..<length line]"

definition slice :: "nat \<Rightarrow> nat \<Rightarrow> 'a list \<Rightarrow> 'a list" where
  "slice a b xs = take (b - a) (drop a xs)"

definition pieces :: "nat list \<Rightarrow> 'a list \<Rightarrow> 'a list list" where
  "pieces seps xs = map (\<lambda>(a, b). slice a b xs) (zip (0 # map Suc seps) (seps @ [length xs]))"

definition unquote :: "string \<Rightarrow> string" where
  "unquote s = filter (\<lambda>c. c \<noteq> CHR 0x22) s"

definition spec_fields :: "string \<Rightarrow> string list" where
  "spec_fields line = map (\<lambda>p. trim (unquote p)) (pieces (separators line) line)"

text \<open>
  The fields of a line in the words of the specification: a comma is no separator only
  when it stands between an odd-numbered double quote and the double quote that follows
  it, that is, when the number of double quotes before it is odd and a double quote
  comes after it.
\<close>

definition quote_follows :: "string \<Rightarrow> nat \<Rightarrow> bool" where
  "quote_follows line i \<longleftrightarrow> CHR 0x22 \<in> set (drop (Suc i) line)"

definition claimed_separator :: "string \<Rightarrow> nat \<Rightarrow> bool" where
  "claimed_separator line i \<longleftrightarrow>
     i < length line \<and> line ! i = CHR '','' \<and>
     \<not> (odd (quotes_before line i) \<and> quote_follows line i)"

definition claimed_fields :: "string \<Rightarrow> string list" where
  "claimed_fields line =
     map (\<lambda>p. trim (unquote p))
       (pieces (filter (claimed_separator line) [0..<length line]) line)"

text \<open>
  The email pattern of \<open>emailRegex\<close> in words: a local part, an at sign, a domain
  part, a dot and a suffix, the three parts non-empty and free of white space and of at
  signs.
\<close>

definition email_pattern :: "string \<Rightarrow> bool" where
  "email_pattern s \<longleftrightarrow>
     (\<exists>local domain suffix.
        s = local @ ''@'' @ domain @ ''.'' @ suffix \<and>
        local \<noteq> [] \<and> domain \<noteq> [] \<and> suffix \<noteq> [] \<and>
        (\<forall>c \<in> set (local @ domain @ suffix). \<not> whitespace c \<and> c \<noteq> CHR ''@''))"

text \<open>
  The email pattern in the words of the specification, which keep white space and at
  signs out of the local part only.
\<close>

definition claimed_email_pattern :: "string \<Rightarrow> bool" where
  "claimed_email_pattern s \<longleftrightarrow>
     (\<exists>local domain suffix.
        s = local @ ''@'' @ domain @ ''.'' @ suffix \<and>
        local \<noteq> [] \<and> (\<forall>c \<in> set local. \<not> whitespace c \<and> c \<noteq> CHR ''@'') \<and>
        domain \<noteq> [] \<and> suffix \<noteq> [])"

text \<open>A signature is present: not \<open>null\<close> and not the empty string.\<close>

definition present :: "string option \<Rightarrow> bool" where
  "present v \<longleftrightarrow> (\<exists>dataUrl. v = Some dataUrl \<and> dataUrl \<noteq> [])"

text \<open>A form whose three required fields are filled in as validation asks.\<close>

definition fields_valid :: "InvoiceData \<Rightarrow> bool" where
  "fields_valid fd \<longleftrightarrow>
     trim (vendorName fd) \<noteq> [] \<and> trim (invoiceNumber fd) \<noteq> [] \<and>
     vendorEmail fd \<noteq> [] \<and> email_pattern (vendorEmail fd)"

text \<open>
  The fetch fails after the guard: \<open>fetch\<close> rejects, the response is not ok, its body
  cannot be read, or no valid vendor is parsed from it.
\<close>

definition fetch_failed :: "app_state \<Rightarrow> fetch_result \<Rightarrow> bool" where
  "fetch_failed s fetched \<longleftrightarrow>
     (case fetched of
        Inl e \<Rightarrow> True
      | Inr csvResponse \<Rightarrow>
          \<not> ok csvResponse \<or>
          (case text_of csvResponse of
             Inl e \<Rightarrow> True
           | Inr csvText \<Rightarrow>
               loadVendors (getColIndex (nameCol s)) (getColIndex (emailCol s)) (parseRows csvText)
               = []))"

text \<open>A state with one vendor loaded, for the examples.\<close>

definition example_state :: app_state where
  "example_state =
     (initial_state ''2024-05-01'' ''INV-240501-0007'')
       \<lparr>formData := example_invoice,
        vendors := [\<lparr>name = ''Acme'', email = ''sales@acme.example''\<rparr>]\<rparr>"

text \<open>The separators of a suffix of the line, read from inside or outside a quote.\<close>

definition seps_from :: "bool \<Rightarrow> string \<Rightarrow> nat list" where
  "seps_from q xs =
     filter (\<lambda>i. xs ! i = CHR '','' \<and> odd (quotes_before xs i) = q) [0..<length xs]"

text \<open>
  A sequence of operations: one return added, an upload, one delivery added and edited, the
  vendor name typed.
\<close>

definition example_actions :: "action list" where
  "example_actions =
     [AddLineItem Returns ''r'',
      ImageUpload ''2024-05-02'' (\<lambda>k. ''ocr'') (Some ''key'')
        (Inr (Some \<lparr>raw_invoiceNumber = None, raw_date = None, raw_vendorName = Some ''Acme'',
                    raw_vendorEmail = None,
                    raw_deliveries =
                      Some [\<lparr>raw_quantity = Some 2, raw_description = Some ''tea'',
                             raw_cost = None\<rparr>]\<rparr>)),
      AddLineItem Deliveries ''a'',
      UpdateQuantity Deliveries ''a'' 3,
      UpdateDescription Deliveries ''a'' ''rice'',
      UpdateCost Deliveries ''a'' (5/2),
      InputChange In_vendorName ''Acme Foods'']"

section \<open>Net total\<close>

lemma foldl_plus_sum_list:
  fixes f :: "'a \<Rightarrow> number"
  shows "foldl (\<lambda>acc x. acc + f x) a xs = a + sum_list (map f xs)"
  by (induction xs arbitrary: a) (simp_all add: add.assoc)

text \<open>
  Claim C2. For every invoice, the net total that the form computes for display and the
  net total that the PDF summary computes are both the sum of the \<open>total\<close> fields of the
  deliveries minus the sum of the \<open>total\<close> fields of the returns.
\<close>

theorem net_total_is_deliveries_minus_returns:
  "netTotal fd = sum_list (map total (deliveries fd)) - sum_list (map total (returns fd))
   \<and> pdf_netTotal fd = sum_list (map total (deliveries fd)) - sum_list (map total (returns fd))"
  by (simp add: netTotal_def deliveryTotal_def returnsTotal_def calculateSectionTotal_def
      pdf_netTotal_def pdf_deliveryTotal_def pdf_returnsTotal_def foldl_plus_sum_list)

section \<open>Line item totals\<close>

lemma line_totals_ok_set_list:
  "line_totals_ok fd \<Longrightarrow> list_all item_total_ok xs \<Longrightarrow> line_totals_ok (set_list t xs fd)"
  by (cases t) (simp_all add: line_totals_ok_def)

lemma line_totals_ok_get_list: "line_totals_ok fd \<Longrightarrow> list_all item_total_ok (get_list t fd)"
  by (cases t) (simp_all add: line_totals_ok_def)

lemma update_item_ok:
  "item_total_ok item \<Longrightarrow> \<not> (\<exists>v. fv = Set_total v) \<Longrightarrow> item_total_ok (update_item fv item)"
  by (cases fv) (simp_all add: item_total_ok_def Number_def)

lemma addLineItem_ok: "line_totals_ok fd \<Longrightarrow> line_totals_ok (addLineItem t u fd)"
  unfolding addLineItem_def Let_def
  by (rule line_totals_ok_set_list) (simp_all add: line_totals_ok_get_list item_total_ok_def)

lemma removeLineItem_ok: "line_totals_ok fd \<Longrightarrow> line_totals_ok (removeLineItem t i fd)"
  unfolding removeLineItem_def
  by (rule line_totals_ok_set_list) (use line_totals_ok_get_list[of fd t] in \<open>simp_all add: list_all_iff\<close>)

lemma updateLineItem_ok:
  "line_totals_ok fd \<Longrightarrow> \<not> (\<exists>v. fv = Set_total v) \<Longrightarrow> line_totals_ok (updateLineItem t i fv fd)"
  unfolding updateLineItem_def Let_def
  by (rule line_totals_ok_set_list)
     (use line_totals_ok_get_list[of fd t] in \<open>auto simp: list_all_iff update_item_ok\<close>)

lemma extracted_items_ok:
  "extractInvoiceData today uuid api_key reply = Inr x \<Longrightarrow>
   list_all item_total_ok (x_deliveries x) \<and> x_returns x = []"
  by (auto simp: extractInvoiceData_def list_all_iff item_total_ok_def
      split: if_splits sum.splits option.splits)

lemma mergeExtracted_ok:
  "line_totals_ok fd \<Longrightarrow> list_all item_total_ok (x_deliveries x) \<Longrightarrow> x_returns x = [] \<Longrightarrow>
   line_totals_ok (mergeExtracted x fd)"
  by (simp add: mergeExtracted_def line_totals_ok_def)

lemma handleImageUpload_ok:
  "line_totals_ok (formData s) \<Longrightarrow>
   line_totals_ok (formData (handleImageUpload s (Some (extractInvoiceData today uuid api_key reply))))"
  by (cases "extractInvoiceData today uuid api_key reply")
     (simp_all add: handleImageUpload_def setFormData_def mergeExtracted_ok extracted_items_ok)

lemma set_input_lists:
  "deliveries (set_input input v fd) = deliveries fd \<and> returns (set_input input v fd) = returns fd"
  by (cases input) simp_all

lemma handleInputChange_lists:
  "deliveries (formData (handleInputChange input v s)) = deliveries (formData s)
   \<and> returns (formData (handleInputChange input v s)) = returns (formData s)"
  by (simp add: handleInputChange_def Let_def setFormData_def set_input_lists
      split: option.splits)

lemma fetchVendorsFromSheet_formData: "formData (fetchVendorsFromSheet s fetched) = formData s"
  by (simp add: fetchVendorsFromSheet_def Let_def split: sum.splits)

lemma perform_ok:
  "line_totals_ok (formData s) \<Longrightarrow> line_totals_ok (formData (perform a s))"
proof (cases a)
  case (InputChange input v)
  assume "line_totals_ok (formData s)"
  with InputChange show ?thesis
    by (simp add: line_totals_ok_def handleInputChange_lists)
next
  case (RegenerateInvoiceNumber generated)
  assume "line_totals_ok (formData s)"
  with RegenerateInvoiceNumber show ?thesis
    by (simp add: line_totals_ok_def regenerateInvoiceNumber_def setFormData_def)
qed (simp_all add: setFormData_def addLineItem_ok removeLineItem_ok updateLineItem_ok
      handleImageUpload_ok fetchVendorsFromSheet_formData)

lemma run_ok: "line_totals_ok (formData s) \<Longrightarrow> line_totals_ok (formData (run s acts))"
  unfolding run_def
  by (induction acts arbitrary: s) (simp_all add: perform_ok)

lemma initial_ok: "line_totals_ok (formData (initial_state today generated))"
  by (simp add: initial_state_def initialInvoiceState_def line_totals_ok_def)


text \<open>
  Claim C1. On a fresh form, and on any form whose line items have
  \<open>total = quantity * cost\<close>, every sequence of the operations of the program keeps
  that: every line item of both lists has \<open>total = quantity * cost\<close>. The operations
  are \<open>addLineItem\<close>, \<open>removeLineItem\<close>, \<open>updateLineItem\<close> on every field that a call
  passes to it (\<open>description\<close>, \<open>quantity\<close>, \<open>cost\<close>), the image upload with OCR
  extraction by \<open>extractInvoiceData\<close>, and the header inputs.
\<close>

theorem line_totals_invariant:
  "line_totals_ok (formData (run (initial_state today generated) acts)) \<and>
   (line_totals_ok (formData s) \<longrightarrow> line_totals_ok (formData (run s acts)))"
  by (simp add: run_ok initial_ok)

theorem line_totals_invariant_witness:
  "deliveries (formData (run (initial_state ''2024-05-01'' ''INV-240501-0007'') example_actions))
     = [\<lparr>item_id = ''ocr'', quantity = 2, description = ''tea'', cost = 0, total = 0\<rparr>,
        \<lparr>item_id = ''a'', quantity = 3, description = ''rice'', cost = 5/2, total = 15/2\<rparr>]
   \<and> returns (formData (run (initial_state ''2024-05-01'' ''INV-240501-0007'') example_actions))
     = []
   \<and> line_totals_ok
       (formData (run (initial_state ''2024-05-01'' ''INV-240501-0007'') example_actions))"
  using line_totals_invariant [of "''2024-05-01''" "''INV-240501-0007''" example_actions
      "initial_state ''2024-05-01'' ''INV-240501-0007''"]
  by (simp add: example_actions_def run_def setFormData_def initial_state_def
      initialInvoiceState_def addLineItem_def updateLineItem_def handleImageUpload_def
      extractInvoiceData_def mergeExtracted_def str_or_def number_or_zero_def enumerate_eq_zip
      handleInputChange_def no_errors_def Number_def)

section \<open>Totals at the point of use\<close>



section \<open>Frame of the line item edits\<close>

lemma get_set_list: "get_list t (set_list t xs fd) = xs"
  by (cases t) simp_all

lemma get_set_other: "get_list (other_list t) (set_list t xs fd) = get_list (other_list t) fd"
  by (cases t) simp_all

lemma same_header_set_list: "same_header (set_list t xs fd) fd"
  by (cases t) (simp_all add: same_header_def)

lemma set_get_list: "set_list t (get_list t fd) fd = fd"
  by (cases t) simp_all

lemma filter_absent:
  "\<forall>x\<in>set xs. item_id x \<noteq> i \<Longrightarrow> filter (\<lambda>item. item_id item \<noteq> i) xs = xs"
  by (induction xs) simp_all

lemma map_absent:
  "\<forall>x\<in>set xs. item_id x \<noteq> i \<Longrightarrow>
   map (\<lambda>item. if item_id item = i then f item else item) xs = xs"
  by (induction xs) simp_all

text \<open>
  Claim C10. \<open>removeLineItem\<close> and \<open>updateLineItem\<close> on one list with an id leave the
  other list and the header fields as they are; \<open>removeLineItem\<close> keeps exactly the items
  with another id, in order; \<open>updateLineItem\<close> keeps the length and every item with
  another id at its place; and both return the invoice unchanged when no item of the
  list has the id.
\<close>

theorem line_item_edit_frame:
  "get_list (other_list t) (removeLineItem t i fd) = get_list (other_list t) fd
   \<and> get_list (other_list t) (updateLineItem t i fv fd) = get_list (other_list t) fd
   \<and> same_header (removeLineItem t i fd) fd
   \<and> same_header (updateLineItem t i fv fd) fd
   \<and> get_list t (removeLineItem t i fd) = filter (\<lambda>x. item_id x \<noteq> i) (get_list t fd)
   \<and> length (get_list t (updateLineItem t i fv fd)) = length (get_list t fd)
   \<and> (\<forall>k < length (get_list t fd). item_id (get_list t fd ! k) \<noteq> i \<longrightarrow>
         get_list t (updateLineItem t i fv fd) ! k = get_list t fd ! k)
   \<and> ((\<forall>x \<in> set (get_list t fd). item_id x \<noteq> i) \<longrightarrow>
         removeLineItem t i fd = fd \<and> updateLineItem t i fv fd = fd)"
  by (simp add: removeLineItem_def updateLineItem_def get_set_list get_set_other
      same_header_set_list filter_absent map_absent set_get_list)

theorem line_item_edit_frame_witness:
  "removeLineItem Deliveries ''zz'' example_invoice = example_invoice
   \<and> updateLineItem Deliveries ''zz'' (Set_cost 7) example_invoice = example_invoice
   \<and> item_id (deliveries example_invoice ! 1) \<noteq> ''a''
   \<and> deliveries (updateLineItem Deliveries ''a'' (Set_cost 7) example_invoice) ! 1
       = deliveries example_invoice ! 1
   \<and> deliveries (updateLineItem Deliveries ''a'' (Set_cost 7) example_invoice) ! 0
       = \<lparr>item_id = ''a'', quantity = 2, description = ''rice'', cost = 7, total = 14\<rparr>"
  using line_item_edit_frame [of Deliveries "''zz''" example_invoice "Set_cost 7"]
    line_item_edit_frame [of Deliveries "''a''" example_invoice "Set_cost 7"]
  by (simp add: example_invoice_def updateLineItem_def Number_def)

section \<open>Image upload\<close>

text \<open>
  Claim C9. After a successful extraction, \<open>handleImageUpload\<close> keeps the invoice number of
  the form when the extracted one is empty (and takes the extracted one otherwise), keeps
  the deliveries of the form when no delivery item was extracted (and takes the extracted
  ones otherwise), and always leaves the returns list empty.
\<close>

theorem image_upload_merge:
  assumes "extractInvoiceData today uuid api_key reply = Inr x"
  shows "invoiceNumber (formData (handleImageUpload s (Some (Inr x))))
           = (if x_invoiceNumber x = [] then invoiceNumber (formData s) else x_invoiceNumber x)
         \<and> deliveries (formData (handleImageUpload s (Some (Inr x))))
           = (if x_deliveries x = [] then deliveries (formData s) else x_deliveries x)
         \<and> returns (formData (handleImageUpload s (Some (Inr x)))) = []"
  using extracted_items_ok [OF assms]
  by (simp add: handleImageUpload_def setFormData_def mergeExtracted_def)

theorem image_upload_merge_witness:
  "extractInvoiceData ''2024-05-02'' (\<lambda>k. ''id'') (Some ''key'')
      (Inr (Some \<lparr>raw_invoiceNumber = None, raw_date = None, raw_vendorName = Some ''Acme'',
                  raw_vendorEmail = None, raw_deliveries = Some []\<rparr>))
     = Inr \<lparr>x_invoiceNumber = [], x_date = ''2024-05-02'', x_vendorName = ''Acme'',
            x_vendorEmail = [], x_deliveries = [], x_returns = []\<rparr>
   \<and> returns example_invoice \<noteq> []
   \<and> formData (handleImageUpload
        ((initial_state ''2024-05-01'' ''INV-1'')\<lparr>formData := example_invoice\<rparr>)
        (Some (Inr \<lparr>x_invoiceNumber = [], x_date = ''2024-05-02'', x_vendorName = ''Acme'',
            x_vendorEmail = [], x_deliveries = [], x_returns = []\<rparr>)))
      = example_invoice\<lparr>date := ''2024-05-02'', vendorEmail := [], returns := []\<rparr>"
proof -
  have ex: "extractInvoiceData ''2024-05-02'' (\<lambda>k. ''id'') (Some ''key'')
      (Inr (Some \<lparr>raw_invoiceNumber = None, raw_date = None, raw_vendorName = Some ''Acme'',
                  raw_vendorEmail = None, raw_deliveries = Some []\<rparr>))
     = Inr \<lparr>x_invoiceNumber = [], x_date = ''2024-05-02'', x_vendorName = ''Acme'',
            x_vendorEmail = [], x_deliveries = [], x_returns = []\<rparr>"
    by (simp add: extractInvoiceData_def str_or_def enumerate_eq_zip)
  show ?thesis
    using ex image_upload_merge [OF ex,
        of "(initial_state ''2024-05-01'' ''INV-1'')\<lparr>formData := example_invoice\<rparr>"]
    by (simp add: handleImageUpload_def setFormData_def mergeExtracted_def example_invoice_def)
qed

section \<open>Column letters\<close>

lemma bijective26_Cons: "bijective26 (d # ds) = d * 26 ^ length ds + bijective26 ds"
  unfolding bijective26_def by (simp add: sum.lessThan_Suc_shift del: sum.lessThan_Suc)

lemma foldl_base26:
  "foldl (\<lambda>sum d. sum * 26 + d) a ds = a * 26 ^ length ds + bijective26 ds"
proof (induction ds arbitrary: a)
  case Nil
  show ?case by (simp add: bijective26_def)
next
  case (Cons d ds)
  have "foldl (\<lambda>sum d. sum * 26 + d) a (d # ds) = foldl (\<lambda>sum d. sum * 26 + d) (a * 26 + d) ds"
    by (simp only: foldl_Cons)
  also have "\<dots> = (a * 26 + d) * 26 ^ length ds + bijective26 ds"
    by (rule Cons.IH)
  also have "\<dots> = a * 26 ^ length (d # ds) + bijective26 (d # ds)"
    by (simp only: bijective26_Cons) (simp add: algebra_simps)
  finally show ?case .
qed

lemma upper_code:
  "is_letter c \<Longrightarrow>
   int (of_char (if is_lower c then char_of ((of_char c :: nat) - 32) else c)) - int (of_char (CHR ''A'')) + 1
   = letter_number c"
  by (auto simp: is_letter_def is_lower_def is_upper_def letter_number_def)

lemma foldl_map_fun: "foldl (\<lambda>acc x. g acc (f x)) a xs = foldl g a (map f xs)"
  by (induction xs arbitrary: a) simp_all

lemma foldl_upper:
  "foldl (\<lambda>sum ch. plus_int (times26 sum) (int (of_char ch) - int (of_char (CHR ''A'')) + 1)) a
      (toUpperCase (filter is_letter col))
   = foldl (\<lambda>sum d. plus_int (times26 sum) d) a (map letter_number (filter is_letter col))"
proof -
  let ?up = "\<lambda>c. if is_lower c then char_of ((of_char c :: nat) - 32) else c"
  let ?code = "\<lambda>ch. int (of_char ch) - int (of_char (CHR ''A'')) + 1"
  have "map ?code (toUpperCase (filter is_letter col)) = map letter_number (filter is_letter col)"
    unfolding toUpperCase_def map_map
  proof (rule map_cong)
    fix c assume "c \<in> set (filter is_letter col)"
    then have "is_letter c" by simp
    from upper_code [OF this] show "(?code \<circ> ?up) c = letter_number c"
      by (simp only: o_apply)
  qed (rule refl)
  moreover have "foldl (\<lambda>sum ch. plus_int (times26 sum) (?code ch)) a
        (toUpperCase (filter is_letter col))
      = foldl (\<lambda>sum d. plus_int (times26 sum) d) a (map ?code (toUpperCase (filter is_letter col)))"
    by (rule foldl_map_fun [of "\<lambda>sum d. plus_int (times26 sum) d" ?code])
  ultimately show ?thesis by (simp only:)
qed

lemma letter_number_range: "is_letter c \<Longrightarrow> 1 \<le> letter_number c \<and> letter_number c \<le> 26"
  by (auto simp: is_letter_def is_lower_def is_upper_def letter_number_def)

lemma round_double_exact: "\<bar>n\<bar> < 2 ^ 53 \<Longrightarrow> round_double n = Finite n"
  by (simp add: round_double_def)

text \<open>
  While the sum stays below \<open>2^53\<close> the doubles are exact: the loop computes the exact
  sum, which grows by a factor of less than 27 with each digit.
\<close>

lemma foldl_exact:
  "0 \<le> a \<Longrightarrow> (a + 1) * 27 ^ length ds \<le> 2 ^ 53 \<Longrightarrow> \<forall>d \<in> set ds. 1 \<le> d \<and> d \<le> 26 \<Longrightarrow>
   foldl (\<lambda>sum d. plus_int (times26 sum) d) (Finite a) ds
     = Finite (foldl (\<lambda>sum d. sum * 26 + d) a ds)
   \<and> 0 \<le> foldl (\<lambda>sum d. sum * 26 + d) a ds
   \<and> foldl (\<lambda>sum d. sum * 26 + d) a ds + 1 \<le> (a + 1) * 27 ^ length ds"
proof (induction ds arbitrary: a)
  case Nil
  then show ?case by simp
next
  case (Cons d ds)
  from Cons.prems have d: "1 \<le> d" "d \<le> 26" and a: "0 \<le> a" by simp_all
  define P where "P = (27::int) ^ length ds"
  have P: "1 \<le> P" by (simp add: P_def)
  have eq: "(a + 1) * 27 ^ length (d # ds) = ((a + 1) * 27) * P"
    by (simp add: P_def algebra_simps)
  have bound: "((a + 1) * 27) * P \<le> 2 ^ 53"
    using Cons.prems(2) unfolding eq .
  have step: "(a * 26 + d + 1) * P \<le> ((a + 1) * 27) * P"
    using a d P by (intro mult_right_mono) auto
  have "((a + 1) * 27) * 1 \<le> ((a + 1) * 27) * P"
    using a P by (intro mult_left_mono) auto
  with bound have small: "(a + 1) * 27 \<le> 2 ^ 53" by simp
  have m: "times26 (Finite a) = Finite (a * 26)"
    using a small by (simp add: round_double_exact)
  have p: "plus_int (Finite (a * 26)) d = Finite (a * 26 + d)"
    using a d small by (simp add: round_double_exact)
  have IH: "foldl (\<lambda>sum d. plus_int (times26 sum) d) (Finite (a * 26 + d)) ds
     = Finite (foldl (\<lambda>sum d. sum * 26 + d) (a * 26 + d) ds)
   \<and> 0 \<le> foldl (\<lambda>sum d. sum * 26 + d) (a * 26 + d) ds
   \<and> foldl (\<lambda>sum d. sum * 26 + d) (a * 26 + d) ds + 1 \<le> (a * 26 + d + 1) * 27 ^ length ds"
  proof (rule Cons.IH)
    show "0 \<le> a * 26 + d" using a d by simp
    show "(a * 26 + d + 1) * 27 ^ length ds \<le> 2 ^ 53"
      using step bound unfolding P_def by linarith
    show "\<forall>d \<in> set ds. 1 \<le> d \<and> d \<le> 26" using Cons.prems(3) by simp
  qed
  then have "foldl (\<lambda>sum d. sum * 26 + d) (a * 26 + d) ds + 1 \<le> ((a + 1) * 27) * P"
    using step unfolding P_def by linarith
  then have "foldl (\<lambda>sum d. sum * 26 + d) (a * 26 + d) ds + 1 \<le> (a + 1) * 27 ^ length (d # ds)"
    unfolding eq .
  with IH m p show ?case by simp
qed

lemma getColIndex_exact:
  assumes "length (filter is_letter col) \<le> 11"
  shows "getColIndex col = Finite (bijective26 (map letter_number (filter is_letter col)) - 1)"
proof -
  let ?ds = "map letter_number (filter is_letter col)"
  have "(27::int) ^ length ?ds \<le> 27 ^ 11"
    using assms by (intro power_increasing) simp_all
  also have "(27::int) ^ 11 \<le> 2 ^ 53" by simp
  finally have small: "(27::int) ^ length ?ds \<le> 2 ^ 53" .
  then have "((0::int) + 1) * 27 ^ length ?ds \<le> 2 ^ 53" by simp
  moreover have "\<forall>d \<in> set ?ds. 1 \<le> d \<and> d \<le> 26"
    using letter_number_range by auto
  ultimately have ex: "foldl (\<lambda>sum d. plus_int (times26 sum) d) (Finite 0) ?ds
       = Finite (foldl (\<lambda>sum d. sum * 26 + d) 0 ?ds)"
    and lo: "0 \<le> foldl (\<lambda>sum d. sum * 26 + d) 0 ?ds"
    and hi: "foldl (\<lambda>sum d. sum * 26 + d) 0 ?ds + 1 \<le> 27 ^ length ?ds"
    using foldl_exact [of 0 ?ds] by simp_all
  from hi small have "foldl (\<lambda>sum d. sum * 26 + d) 0 ?ds + 1 \<le> 2 ^ 53"
    by (rule order_trans)
  with lo have "plus_int (Finite (foldl (\<lambda>sum d. sum * 26 + d) 0 ?ds)) (- 1)
      = Finite (foldl (\<lambda>sum d. sum * 26 + d) 0 ?ds - 1)"
    by (simp add: round_double_exact)
  then show ?thesis
    unfolding getColIndex_def Let_def foldl_upper ex
    by (simp add: foldl_base26)
qed

text \<open>
  Claim C8, amended. On a string with at most 11 letters, \<open>getColIndex\<close> reads the
  letters, whatever their case and whatever stands between them, as a number in bijective
  base 26 (A is 1, Z is 26) and returns that number less one: A gives 0, B 1, Z 25,
  AA 26; with no letter it gives -1.
\<close>

theorem getColIndex_bijective26:
  "(length (filter is_letter col) \<le> 11 \<longrightarrow>
      getColIndex col = Finite (bijective26 (map letter_number (filter is_letter col)) - 1))
   \<and> (\<forall>c \<in> set (filter is_letter col). 1 \<le> letter_number c \<and> letter_number c \<le> 26)
   \<and> ((\<forall>c \<in> set col. \<not> is_letter c) \<longrightarrow> getColIndex col = Finite (- 1))"
proof -
  have none: "filter is_letter col = []" if "\<forall>c \<in> set col. \<not> is_letter c"
    using that by (induction col) simp_all
  have "getColIndex col = Finite (- 1)" if "\<forall>c \<in> set col. \<not> is_letter c"
    using getColIndex_exact [of col] none [OF that] by (simp add: bijective26_def)
  then show ?thesis
    using getColIndex_exact [of col] letter_number_range by auto
qed

theorem getColIndex_bijective26_witness:
  "getColIndex ''A'' = Finite 0 \<and> getColIndex ''B'' = Finite 1 \<and> getColIndex ''Z'' = Finite 25
   \<and> getColIndex ''AA'' = Finite 26 \<and> getColIndex ''a-b 1'' = Finite 27
   \<and> getColIndex ''12'' = Finite (- 1) \<and> letter_number (CHR ''z'') = 26"
  using getColIndex_bijective26 [of "''A''"] getColIndex_bijective26 [of "''B''"]
    getColIndex_bijective26 [of "''Z''"] getColIndex_bijective26 [of "''AA''"]
    getColIndex_bijective26 [of "''a-b 1''"] getColIndex_bijective26 [of "''12''"]
    getColIndex_bijective26 [of "''z''"]
  by (simp add: bijective26_def letter_number_def is_letter_def is_lower_def is_upper_def
      lessThan_Suc)

text \<open>
  Claim C8 as stated fails from 12 letters on: the sum passes \<open>2^53\<close> and the doubles
  round. Twelve letters Z give 99246114928149472, not the 99246114928149461 of base 26.
\<close>

theorem getColIndex_rounds_counterexample:
  "getColIndex ''ZZZZZZZZZZZZ'' = Finite 99246114928149472
   \<and> bijective26 (map letter_number (filter is_letter ''ZZZZZZZZZZZZ'')) - 1 = 99246114928149461"
proof -
  have "getColIndex ''ZZZZZZZZZZZZ'' = Finite 99246114928149472"
    by code_simp
  moreover have "bijective26 (map letter_number (filter is_letter ''ZZZZZZZZZZZZ'')) - 1
      = 99246114928149461"
    by (simp add: bijective26_def letter_number_def is_letter_def is_lower_def is_upper_def
      lessThan_Suc)
  ultimately show ?thesis by simp
qed

section \<open>Splitting a line\<close>

lemma seps_from_Cons:
  "seps_from q (x # xs) =
     (if x = CHR '','' \<and> \<not> q then [0] else []) @
     map Suc (seps_from (if x = CHR 0x22 then \<not> q else q) xs)"
proof -
  have upt: "[0..<length (x # xs)] = 0 # map Suc [0..<length xs]"
    by (simp add: upt_conv_Cons map_Suc_upt del: upt_Suc)
  show ?thesis
    unfolding seps_from_def upt
    by (auto simp: filter_map o_def quotes_before_def intro!: filter_cong)
qed

lemma slice_Suc_Suc: "slice (Suc a) (Suc b) (x # xs) = slice a b xs"
  by (simp add: slice_def)

lemma slice_0_Suc: "slice 0 (Suc b) (x # xs) = x # slice 0 b xs"
  by (simp add: slice_def)

lemma slices_shift:
  "map (\<lambda>(a, b). slice a b (x # xs)) (zip (map Suc as) (map Suc bs))
   = map (\<lambda>(a, b). slice a b xs) (zip as bs)"
  by (simp add: zip_map_map slice_Suc_Suc split_def)

lemma pieces_sep: "pieces (0 # map Suc ps) (x # xs) = [] # pieces ps xs"
proof -
  have "pieces (0 # map Suc ps) (x # xs)
        = slice 0 0 (x # xs)
          # map (\<lambda>(a, b). slice a b (x # xs))
              (zip (map Suc (0 # map Suc ps)) (map Suc (ps @ [length xs])))"
    by (simp add: pieces_def)
  also have "\<dots> = [] # pieces ps xs"
    unfolding slices_shift by (simp add: pieces_def slice_def)
  finally show ?thesis .
qed

lemma pieces_no_sep:
  "pieces (map Suc ps) (x # xs) = (x # hd (pieces ps xs)) # tl (pieces ps xs)"
proof (cases ps)
  case Nil
  then show ?thesis by (simp add: pieces_def slice_def)
next
  case (Cons p ps')
  have "zip (0 # map Suc (map Suc ps)) (map Suc ps @ [length (x # xs)])
        = (0, Suc p) # zip (map Suc (map Suc ps)) (map Suc (ps' @ [length xs]))"
    using Cons by simp
  moreover have "zip (0 # map Suc ps) (ps @ [length xs])
        = (0, p) # zip (map Suc ps) (ps' @ [length xs])"
    using Cons by simp
  ultimately show ?thesis
    unfolding pieces_def by (simp only: list.map slices_shift) (simp add: slice_0_Suc)
qed

lemma pieces_not_Nil: "pieces ps xs \<noteq> []"
  by (simp add: pieces_def)

lemma splitLoop_pieces:
  "splitLoop xs row current q =
     row @ trim (current @ unquote (hd (pieces (seps_from q xs) xs)))
         # map (\<lambda>p. trim (unquote p)) (tl (pieces (seps_from q xs) xs))"
proof (induction xs arbitrary: row current q)
  case Nil
  show ?case by (simp add: seps_from_def pieces_def slice_def unquote_def)
next
  case (Cons x xs)
  show ?case
  proof (cases "x = CHR 0x22")
    case True
    then show ?thesis
      by (simp add: Cons.IH seps_from_Cons pieces_no_sep unquote_def)
  next
    case False
    show ?thesis
    proof (cases "x = CHR '','' \<and> \<not> q")
      case True
      have "map (\<lambda>p. trim (unquote p)) (pieces (seps_from q xs) xs)
            = trim (unquote (hd (pieces (seps_from q xs) xs)))
              # map (\<lambda>p. trim (unquote p)) (tl (pieces (seps_from q xs) xs))"
        using pieces_not_Nil [of "seps_from q xs" xs]
        by (cases "pieces (seps_from q xs) xs") simp_all
      with True False show ?thesis
        by (simp add: Cons.IH seps_from_Cons pieces_sep unquote_def)
    next
      case no_sep: False
      with False show ?thesis
        by (auto simp: Cons.IH seps_from_Cons pieces_no_sep unquote_def)
    qed
  qed
qed

lemma seps_from_False: "seps_from False line = separators line"
  unfolding seps_from_def separators_def
  by (rule filter_cong) (auto simp: is_separator_def)

lemma splitLine_spec_fields: "splitLine line = spec_fields line"
proof -
  have "map (\<lambda>p. trim (unquote p)) (pieces (separators line) line)
        = trim (unquote (hd (pieces (separators line) line)))
          # map (\<lambda>p. trim (unquote p)) (tl (pieces (separators line) line))"
    using pieces_not_Nil [of "separators line" line]
    by (cases "pieces (separators line) line") simp_all
  then show ?thesis
    by (simp add: splitLine_def spec_fields_def splitLoop_pieces seps_from_False)
qed

lemma splitLoop_row: "splitLoop xs row current q = row @ splitLoop xs [] current q"
  by (simp add: splitLoop_pieces)

lemma splitLoop_quoted:
  "CHR 0x22 \<notin> set s \<Longrightarrow> splitLoop (s @ rest) row current True = splitLoop rest row (current @ s) True"
  by (induction s arbitrary: current) auto

lemma splitLoop_comma:
  "odd (quotes_before a (length a)) = q \<Longrightarrow>
   splitLoop (a @ CHR '','' # b) row current q = splitLoop a row current q @ splitLoop b [] [] False"
proof (induction a arbitrary: row current q)
  case Nil
  then have "\<not> q" by (simp add: quotes_before_def)
  then show ?case by (simp add: splitLoop_row [of b "row @ [trim current]"])
next
  case (Cons x a)
  show ?case
  proof (cases "x = CHR 0x22")
    case True
    with Cons.prems have "odd (quotes_before a (length a)) = (\<not> q)"
      by (auto simp: quotes_before_def)
    from Cons.IH [OF this] True show ?thesis by simp
  next
    case False
    with Cons.prems have "odd (quotes_before a (length a)) = q"
      by (simp add: quotes_before_def)
    from Cons.IH [OF this] False show ?thesis by (cases q) simp_all
  qed
qed

lemma odd_before_quote_follows:
  assumes "i < length line" "line ! i = CHR '',''" "even (quotes_before line (length line))"
    "odd (quotes_before line i)"
  shows "quote_follows line i"
proof -
  let ?q = "\<lambda>c. c = CHR 0x22"
  have "line = take i line @ line ! i # drop (Suc i) line"
    using assms(1) by (simp add: Cons_nth_drop_Suc)
  then have "filter ?q line = filter ?q (take i line) @ filter ?q (line ! i # drop (Suc i) line)"
    by (metis filter_append)
  then have "quotes_before line (length line)
      = quotes_before line i + length (filter ?q (drop (Suc i) line))"
    using assms(2) by (simp add: quotes_before_def)
  with assms(3,4) have "length (filter ?q (drop (Suc i) line)) \<noteq> 0"
    by (metis add.right_neutral)
  then obtain c where "c \<in> set (filter ?q (drop (Suc i) line))"
    by (cases "filter ?q (drop (Suc i) line)") auto
  then show ?thesis
    by (auto simp: quote_follows_def)
qed

lemma claimed_fields_closed_quotes:
  assumes "even (quotes_before line (length line))"
  shows "claimed_fields line = spec_fields line"
proof -
  have "filter (claimed_separator line) [0..<length line] = separators line"
    unfolding separators_def
  proof (rule filter_cong [OF refl])
    fix i assume "i \<in> set [0..<length line]"
    then have i: "i < length line" by simp
    show "claimed_separator line i = is_separator line i"
      using odd_before_quote_follows [OF i _ assms]
      by (auto simp: claimed_separator_def is_separator_def)
  qed
  then show ?thesis
    by (simp add: claimed_fields_def spec_fields_def)
qed

text \<open>
  Claim C3, amended. The splitter returns the pieces of the line between its separators,
  each without its double quotes and trimmed, where a comma is a separator exactly when
  an even number of double quotes stands before it: the line splits at a comma outside
  quotes, a quoted field is returned as one field, its commas kept, and a quote left
  open keeps every comma after it. On a line whose quotes are all closed these are the
  fields of the specification.
\<close>

theorem splitLine_fields:
  "splitLine line = spec_fields line
   \<and> length (splitLine line) = Suc (length (separators line))
   \<and> (even (quotes_before a (length a)) \<longrightarrow>
        splitLine (a @ CHR '','' # b) = splitLine a @ splitLine b)
   \<and> (CHR 0x22 \<notin> set s \<longrightarrow> splitLine (CHR 0x22 # s @ [CHR 0x22]) = [trim s])
   \<and> (even (quotes_before line (length line)) \<longrightarrow> splitLine line = claimed_fields line)"
proof -
  have "length (spec_fields line) = Suc (length (separators line))"
    by (simp add: spec_fields_def pieces_def)
  moreover have "splitLine (a @ CHR '','' # b) = splitLine a @ splitLine b"
    if "even (quotes_before a (length a))"
    using that splitLoop_comma [of a False b "[]" "[]"] by (simp add: splitLine_def)
  moreover have "splitLine (CHR 0x22 # s @ [CHR 0x22]) = [trim s]" if "CHR 0x22 \<notin> set s"
    using splitLoop_quoted [OF that, of "[CHR 0x22]" "[]" "[]"] by (simp add: splitLine_def)
  ultimately show ?thesis
    by (simp add: splitLine_spec_fields claimed_fields_closed_quotes)
qed

theorem splitLine_fields_witness:
  "splitLine (CHR 0x22 # ''Acme, Inc'' @ [CHR 0x22]) = [''Acme, Inc'']
   \<and> splitLine ((CHR 0x22 # ''Acme, Inc'' @ [CHR 0x22]) @ CHR '','' # '' sales@acme.example '')
       = [''Acme, Inc'', ''sales@acme.example'']
   \<and> separators ((CHR 0x22 # ''Acme, Inc'' @ [CHR 0x22]) @ CHR '','' # '' sales@acme.example '')
       = [11]"
  using splitLine_fields [of "(CHR 0x22 # ''Acme, Inc'' @ [CHR 0x22]) @ CHR '','' # '' sales@acme.example ''"
      "CHR 0x22 # ''Acme, Inc'' @ [CHR 0x22]" "'' sales@acme.example ''" "''Acme, Inc''"]
    splitLine_fields [of "'' sales@acme.example ''" "[]" "[]" "[]"]
  by (simp add: quotes_before_def spec_fields_def pieces_def separators_def is_separator_def
      slice_def unquote_def trim_def whitespace_def upt_rec)

text \<open>
  Claim C3 as stated fails on a quote left open: no double quote follows the comma, so
  the specification starts a new field there, and the splitter does not.
\<close>

theorem open_quote_counterexample:
  "splitLine (CHR 0x22 # ''a,b'') = [''a,b'']
   \<and> claimed_fields (CHR 0x22 # ''a,b'') = [''a'', ''b'']"
proof -
  have "splitLine (CHR 0x22 # ''a,b'') = [''a,b'']"
    by (simp add: splitLine_def trim_def whitespace_def)
  moreover have "claimed_fields (CHR 0x22 # ''a,b'') = [''a'', ''b'']"
    by (simp add: claimed_fields_def claimed_separator_def quote_follows_def quotes_before_def
        pieces_def slice_def unquote_def trim_def whitespace_def upt_rec)
  ultimately show ?thesis by simp
qed

section \<open>Validation\<close>

lemma regex_test_Class:
  "regex_test (Class p # r) s \<longleftrightarrow> (\<exists>c v. s = c # v \<and> p c \<and> regex_test r v)"
  by (cases s) simp_all

lemma regex_test_ClassPlus:
  "regex_test (ClassPlus p # r) s \<longleftrightarrow>
     (\<exists>u v. s = u @ v \<and> u \<noteq> [] \<and> (\<forall>c \<in> set u. p c) \<and> regex_test r v)"
proof (induction s)
  case Nil
  show ?case by simp
next
  case (Cons c s)
  show ?case
  proof
    assume "regex_test (ClassPlus p # r) (c # s)"
    then have c: "p c" and rest: "regex_test (ClassPlus p # r) s \<or> regex_test r s"
      by simp_all
    from rest show "\<exists>u v. c # s = u @ v \<and> u \<noteq> [] \<and> (\<forall>c \<in> set u. p c) \<and> regex_test r v"
    proof
      assume "regex_test (ClassPlus p # r) s"
      with Cons.IH obtain u v where "s = u @ v" "\<forall>c \<in> set u. p c" "regex_test r v"
        by blast
      with c have "c # s = (c # u) @ v \<and> c # u \<noteq> [] \<and> (\<forall>c \<in> set (c # u). p c) \<and> regex_test r v"
        by simp
      then show ?thesis by blast
    next
      assume "regex_test r s"
      with c have "c # s = [c] @ s \<and> [c] \<noteq> [] \<and> (\<forall>c \<in> set [c]. p c) \<and> regex_test r s"
        by simp
      then show ?thesis by blast
    qed
  next
    assume "\<exists>u v. c # s = u @ v \<and> u \<noteq> [] \<and> (\<forall>c \<in> set u. p c) \<and> regex_test r v"
    then obtain u v where uv: "c # s = u @ v" "u \<noteq> []" "\<forall>c \<in> set u. p c" "regex_test r v"
      by blast
    then obtain u' where u: "u = c # u'" and s: "s = u' @ v"
      by (cases u) auto
    show "regex_test (ClassPlus p # r) (c # s)"
    proof (cases "u' = []")
      case True
      with uv u s show ?thesis by simp
    next
      case False
      with uv u s have "regex_test (ClassPlus p # r) s"
        using Cons.IH by auto
      with uv u show ?thesis by simp
    qed
  qed
qed

lemma regex_test_end: "regex_test [ClassPlus p] s \<longleftrightarrow> s \<noteq> [] \<and> (\<forall>c \<in> set s. p c)"
  by (induction s) auto

lemma regex_dot_suffix:
  "regex_test [Class (\<lambda>c. c = CHR ''.''), ClassPlus p] v \<longleftrightarrow>
     (\<exists>t. v = CHR ''.'' # t \<and> t \<noteq> [] \<and> (\<forall>c \<in> set t. p c))"
  by (simp only: regex_test_Class regex_test_end) blast

lemma regex_domain:
  "regex_test [ClassPlus p, Class (\<lambda>c. c = CHR ''.''), ClassPlus p] v \<longleftrightarrow>
     (\<exists>d t. v = d @ CHR ''.'' # t \<and> d \<noteq> [] \<and> (\<forall>c \<in> set d. p c) \<and>
            t \<noteq> [] \<and> (\<forall>c \<in> set t. p c))"
  by (simp only: regex_test_ClassPlus [of p "[Class (\<lambda>c. c = CHR ''.''), ClassPlus p]"]
      regex_dot_suffix) blast

lemma regex_at_domain:
  "regex_test [Class (\<lambda>c. c = CHR ''@''), ClassPlus p, Class (\<lambda>c. c = CHR ''.''), ClassPlus p] v
   \<longleftrightarrow>
     (\<exists>d t. v = CHR ''@'' # d @ CHR ''.'' # t \<and> d \<noteq> [] \<and> (\<forall>c \<in> set d. p c) \<and>
            t \<noteq> [] \<and> (\<forall>c \<in> set t. p c))"
  by (simp only: regex_test_Class regex_domain) blast

lemma regex_email:
  "regex_test [ClassPlus p, Class (\<lambda>c. c = CHR ''@''), ClassPlus p, Class (\<lambda>c. c = CHR ''.''),
               ClassPlus p] s
   \<longleftrightarrow>
     (\<exists>l d t. s = l @ CHR ''@'' # d @ CHR ''.'' # t \<and> l \<noteq> [] \<and> (\<forall>c \<in> set l. p c) \<and>
            d \<noteq> [] \<and> (\<forall>c \<in> set d. p c) \<and> t \<noteq> [] \<and> (\<forall>c \<in> set t. p c))"
  by (simp only: regex_test_ClassPlus [of p "[Class (\<lambda>c. c = CHR ''@''), ClassPlus p,
        Class (\<lambda>c. c = CHR ''.''), ClassPlus p]"] regex_at_domain) blast

lemma emailRegex_pattern: "regex_test emailRegex s = email_pattern s"
proof -
  let ?parts = "\<lambda>l d t. s = l @ CHR ''@'' # d @ CHR ''.'' # t \<and> l \<noteq> [] \<and>
      (\<forall>c \<in> set l. not_space_at c) \<and> d \<noteq> [] \<and> (\<forall>c \<in> set d. not_space_at c) \<and>
      t \<noteq> [] \<and> (\<forall>c \<in> set t. not_space_at c)"
  let ?spec = "\<lambda>l d t. s = l @ ''@'' @ d @ ''.'' @ t \<and> l \<noteq> [] \<and> d \<noteq> [] \<and> t \<noteq> [] \<and>
      (\<forall>c \<in> set (l @ d @ t). \<not> whitespace c \<and> c \<noteq> CHR ''@'')"
  have same: "?spec l d t = ?parts l d t" for l d t
    by (auto simp: not_space_at_def)
  have "email_pattern s \<longleftrightarrow> (\<exists>l d t. ?spec l d t)"
    by (simp only: email_pattern_def)
  also have "\<dots> \<longleftrightarrow> (\<exists>l d t. ?parts l d t)"
    by (simp only: same)
  also have "\<dots> \<longleftrightarrow> regex_test emailRegex s"
    by (simp only: emailRegex_def regex_email)
  finally show ?thesis by simp
qed

lemma validateForm_valid: "snd (validateForm s) = fields_valid (formData s)"
  by (simp add: validateForm_def Let_def Object_keys_def no_errors_def fields_valid_def
      emailRegex_pattern)

lemma validateForm_errors:
  "fst (validateForm s) =
     s\<lparr>errors :=
         \<lparr>err_vendorName =
            (if trim (vendorName (formData s)) = [] then Some ''Vendor name is required'' else None),
          err_vendorEmail =
            (if vendorEmail (formData s) = [] then Some ''Vendor email is required''
             else if email_pattern (vendorEmail (formData s)) then None
             else Some ''Invalid email format''),
          err_invoiceNumber =
            (if trim (invoiceNumber (formData s)) = [] then Some ''Invoice number is required''
             else None),
          err_date = None\<rparr>\<rparr>"
  by (simp add: validateForm_def Let_def no_errors_def emailRegex_pattern)

lemma email_pattern_claimed: "email_pattern s \<Longrightarrow> claimed_email_pattern s"
proof -
  assume "email_pattern s"
  then obtain l d t where "s = l @ ''@'' @ d @ ''.'' @ t \<and>
        l \<noteq> [] \<and> d \<noteq> [] \<and> t \<noteq> [] \<and>
        (\<forall>c \<in> set (l @ d @ t). \<not> whitespace c \<and> c \<noteq> CHR ''@'')"
    unfolding email_pattern_def by iprover
  then have "s = l @ ''@'' @ d @ ''.'' @ t \<and> l \<noteq> [] \<and>
      (\<forall>c \<in> set l. \<not> whitespace c \<and> c \<noteq> CHR ''@'') \<and> d \<noteq> [] \<and> t \<noteq> []"
    by simp
  then show ?thesis
    unfolding claimed_email_pattern_def by iprover
qed

text \<open>
  Claim C4, amended. \<open>validateForm\<close> returns true exactly when the trimmed vendor name
  and the trimmed invoice number are non-empty and the vendor email is non-empty and
  matches the email pattern: a local part, an at sign, a domain part, a dot and a suffix,
  each of the three parts non-empty and free of white space and of at signs. Such an
  email matches the pattern of the specification too. \<open>validateForm\<close> changes nothing
  but the recorded errors, which hold a message for the vendor name, the invoice number
  and the vendor email exactly when that field fails.
\<close>

theorem validateForm_spec:
  "snd (validateForm s) =
     (trim (vendorName (formData s)) \<noteq> [] \<and> trim (invoiceNumber (formData s)) \<noteq> [] \<and>
      vendorEmail (formData s) \<noteq> [] \<and> email_pattern (vendorEmail (formData s)))
   \<and> fst (validateForm s) = s\<lparr>errors := errors (fst (validateForm s))\<rparr>
   \<and> err_vendorName (errors (fst (validateForm s))) =
       (if trim (vendorName (formData s)) = [] then Some ''Vendor name is required'' else None)
   \<and> err_invoiceNumber (errors (fst (validateForm s))) =
       (if trim (invoiceNumber (formData s)) = [] then Some ''Invoice number is required''
        else None)
   \<and> err_vendorEmail (errors (fst (validateForm s))) =
       (if vendorEmail (formData s) = [] then Some ''Vendor email is required''
        else if email_pattern (vendorEmail (formData s)) then None
        else Some ''Invalid email format'')
   \<and> (snd (validateForm s) \<longrightarrow> claimed_email_pattern (vendorEmail (formData s)))"
  by (simp add: validateForm_valid fields_valid_def validateForm_errors email_pattern_claimed)

theorem validateForm_spec_witness:
  "snd (validateForm ((initial_state ''2024-05-01'' ''INV-1'')\<lparr>formData := example_invoice\<rparr>))
   \<and> email_pattern ''sales@acme.example''
   \<and> \<not> email_pattern ''sales@acme''
   \<and> \<not> snd (validateForm ((initial_state ''2024-05-01'' ''INV-1'')
         \<lparr>formData := example_invoice\<lparr>vendorName := ''  '', vendorEmail := ''sales@acme''\<rparr>\<rparr>))
   \<and> errors (fst (validateForm ((initial_state ''2024-05-01'' ''INV-1'')
         \<lparr>formData := example_invoice\<lparr>vendorName := ''  '', vendorEmail := ''sales@acme''\<rparr>\<rparr>)))
       = \<lparr>err_vendorName = Some ''Vendor name is required'',
          err_vendorEmail = Some ''Invalid email format'',
          err_invoiceNumber = None, err_date = None\<rparr>"
proof -
  have ok: "regex_test emailRegex ''sales@acme.example''"
    by (simp add: emailRegex_def not_space_at_def whitespace_def)
  have bad: "\<not> regex_test emailRegex ''sales@acme''"
    by (simp add: emailRegex_def not_space_at_def whitespace_def)
  show ?thesis
    using ok bad
      validateForm_spec [of "(initial_state ''2024-05-01'' ''INV-1'')\<lparr>formData := example_invoice\<rparr>"]
      validateForm_spec [of "(initial_state ''2024-05-01'' ''INV-1'')
         \<lparr>formData := example_invoice\<lparr>vendorName := ''  '', vendorEmail := ''sales@acme''\<rparr>\<rparr>"]
    by (simp add: validateForm_def Let_def Object_keys_def no_errors_def example_invoice_def
        trim_def whitespace_def split: if_splits)
qed

text \<open>
  Claim C4 as stated fails: an email whose domain part holds a space matches the pattern
  of the specification, and \<open>validateForm\<close> returns false for it.
\<close>

theorem email_domain_space_counterexample:
  "claimed_email_pattern ''a@b c.d''
   \<and> trim (vendorName example_invoice) \<noteq> [] \<and> trim (invoiceNumber example_invoice) \<noteq> []
   \<and> \<not> snd (validateForm (example_state\<lparr>formData := example_invoice\<lparr>vendorEmail := ''a@b c.d''\<rparr>\<rparr>))"
proof -
  have "''a@b c.d'' = ''a'' @ ''@'' @ ''b c'' @ ''.'' @ ''d'' \<and> ''a'' \<noteq> [] \<and>
      (\<forall>c \<in> set ''a''. \<not> whitespace c \<and> c \<noteq> CHR ''@'') \<and> ''b c'' \<noteq> [] \<and> ''d'' \<noteq> []"
    by (simp add: whitespace_def)
  then have "claimed_email_pattern ''a@b c.d''"
    unfolding claimed_email_pattern_def by iprover
  moreover have "\<not> regex_test emailRegex ''a@b c.d''"
    by (simp add: emailRegex_def not_space_at_def whitespace_def)
  then have "\<not> snd (validateForm
      (example_state\<lparr>formData := example_invoice\<lparr>vendorEmail := ''a@b c.d''\<rparr>\<rparr>))"
    by (simp add: validateForm_def Let_def Object_keys_def no_errors_def)
  moreover have "trim (vendorName example_invoice) \<noteq> [] \<and> trim (invoiceNumber example_invoice) \<noteq> []"
    by (simp add: example_invoice_def trim_def whitespace_def)
  ultimately show ?thesis by simp
qed

section \<open>Submission\<close>

lemma present_not_falsy: "present v \<longleftrightarrow> \<not> falsy v"
  by (cases v) (simp_all add: present_def falsy_def)

text \<open>
  Claim C5. \<open>handleSubmit\<close> calls the PDF generation exactly when validation succeeds and
  both signatures are present. When validation fails (as it does when a required field is
  missing) or a signature is missing, all it shows is one alert, and the PDF generation is
  not called.
\<close>

theorem handleSubmit_gate:
  "((\<exists>d v r. GeneratePDF d v r \<in> set (snd (handleSubmit s pdf_throws)))
      \<longleftrightarrow> snd (validateForm s) \<and> present (vendorSignature s) \<and> present (receiverSignature s))
   \<and> (\<not> snd (validateForm s) \<longrightarrow>
        snd (handleSubmit s pdf_throws) = [Alert ''Please fix errors before submitting.''])
   \<and> (snd (validateForm s) \<and> (\<not> present (vendorSignature s) \<or> \<not> present (receiverSignature s))
        \<longrightarrow> snd (handleSubmit s pdf_throws) = [Alert ''Both signatures are required.''])
   \<and> (trim (vendorName (formData s)) = [] \<or> trim (invoiceNumber (formData s)) = [] \<or>
       vendorEmail (formData s) = [] \<longrightarrow> \<not> snd (validateForm s))"
proof -
  obtain s1 valid where v: "validateForm s = (s1, valid)"
    by (cases "validateForm s")
  have "trim (vendorName (formData s)) = [] \<or> trim (invoiceNumber (formData s)) = [] \<or>
        vendorEmail (formData s) = [] \<longrightarrow> \<not> snd (validateForm s)"
    by (simp add: validateForm_valid fields_valid_def)
  then show ?thesis
    using v by (auto simp: handleSubmit_def present_not_falsy)
qed

theorem handleSubmit_gate_witness:
  "snd (handleSubmit (example_state\<lparr>vendorSignature := Some ''data:v'',
                                    receiverSignature := Some ''data:r''\<rparr>) False)
     = [GeneratePDF example_invoice (Some ''data:v'') (Some ''data:r''),
        Alert ''Form submitted! Sending email to sales@acme.example... (Simulated)'']
   \<and> snd (handleSubmit (example_state\<lparr>vendorSignature := Some ''data:v''\<rparr>) False)
     = [Alert ''Both signatures are required.'']
   \<and> snd (handleSubmit ((example_state\<lparr>vendorSignature := Some ''data:v'',
                                    receiverSignature := Some ''data:r''\<rparr>)
                          \<lparr>formData := example_invoice\<lparr>vendorEmail := []\<rparr>\<rparr>) False)
     = [Alert ''Please fix errors before submitting.'']"
proof -
  let ?both = "example_state\<lparr>vendorSignature := Some ''data:v'',
                             receiverSignature := Some ''data:r''\<rparr>"
  let ?one = "example_state\<lparr>vendorSignature := Some ''data:v''\<rparr>"
  let ?noemail = "?both\<lparr>formData := example_invoice\<lparr>vendorEmail := []\<rparr>\<rparr>"
  have st: "formData example_state = example_invoice" "vendorSignature example_state = None"
    "receiverSignature example_state = None"
    by (simp_all add: example_state_def initial_state_def)
  have mail: "vendorEmail example_invoice = ''sales@acme.example''"
    by (simp add: example_invoice_def)
  have "regex_test emailRegex ''sales@acme.example''"
    by (simp add: emailRegex_def not_space_at_def whitespace_def)
  then have fv: "fields_valid example_invoice"
    by (simp add: fields_valid_def emailRegex_pattern [symmetric] example_invoice_def trim_def
        whitespace_def)
  have v1: "snd (validateForm ?both)" and v2: "snd (validateForm ?one)"
    by (simp_all add: validateForm_valid st fv)
  have g: "snd (handleSubmit ?both False)
      = [GeneratePDF example_invoice (Some ''data:v'') (Some ''data:r''),
         Alert ''Form submitted! Sending email to sales@acme.example... (Simulated)'']"
    using v1 by (simp add: handleSubmit_def split_def falsy_def st mail)
  have a1: "snd (handleSubmit ?one False) = [Alert ''Both signatures are required.'']"
    using handleSubmit_gate [of ?one False] v2 by (simp add: present_def st)
  have a2: "snd (handleSubmit ?noemail False) = [Alert ''Please fix errors before submitting.'']"
    using handleSubmit_gate [of ?noemail False] by simp
  show ?thesis
    using g a1 a2 by simp
qed

section \<open>Fetching the vendors\<close>

lemma fetch_body_failed:
  "fetch_failed s fetched \<Longrightarrow> \<exists>message. fetch_body s fetched = Inl message"
  by (auto simp: fetch_failed_def fetch_body_def Let_def split: sum.splits)

lemma fetch_body_loaded:
  "\<not> fetch_failed s fetched \<Longrightarrow>
   \<exists>loaded. loaded \<noteq> [] \<and> fetch_body s fetched = Inr loaded"
  by (auto simp: fetch_failed_def fetch_body_def Let_def split: sum.splits)

text \<open>
  Claim C6, amended. With no sheet id or no sheet name, \<open>fetchVendorsFromSheet\<close> records
  its message and changes nothing else: the vendors and the fetching flag stay as they
  were. When the fetch fails after that guard (the request is rejected, the response is
  not ok, its body cannot be read, or no valid vendor is parsed), a non-empty message is
  recorded, the fetching flag is false and the vendors are unchanged. The vendors are
  replaced on success only, by a non-empty list, with no error and the flag false.
\<close>

theorem fetchVendors_failure:
  "(sheetId s = [] \<or> sheetName s = [] \<longrightarrow>
      fetchVendorsFromSheet s fetched
        = s\<lparr>sheetError := Some ''Please enter Spreadsheet ID and Sheet Name''\<rparr>)
   \<and> (sheetId s \<noteq> [] \<and> sheetName s \<noteq> [] \<and> fetch_failed s fetched \<longrightarrow>
        (\<exists>message. message \<noteq> [] \<and> sheetError (fetchVendorsFromSheet s fetched) = Some message)
        \<and> \<not> isFetchingVendors (fetchVendorsFromSheet s fetched)
        \<and> vendors (fetchVendorsFromSheet s fetched) = vendors s)
   \<and> (sheetId s \<noteq> [] \<and> sheetName s \<noteq> [] \<and> \<not> fetch_failed s fetched \<longrightarrow>
        fetch_body s fetched = Inr (vendors (fetchVendorsFromSheet s fetched))
        \<and> vendors (fetchVendorsFromSheet s fetched) \<noteq> []
        \<and> sheetError (fetchVendorsFromSheet s fetched) = None
        \<and> \<not> isFetchingVendors (fetchVendorsFromSheet s fetched))"
proof -
  have guard: "fetchVendorsFromSheet s fetched
        = s\<lparr>sheetError := Some ''Please enter Spreadsheet ID and Sheet Name''\<rparr>"
    if "sheetId s = [] \<or> sheetName s = []"
    using that by (simp add: fetchVendorsFromSheet_def)
  have failed: "(\<exists>message. message \<noteq> [] \<and> sheetError (fetchVendorsFromSheet s fetched) = Some message)
        \<and> \<not> isFetchingVendors (fetchVendorsFromSheet s fetched)
        \<and> vendors (fetchVendorsFromSheet s fetched) = vendors s"
    if "sheetId s \<noteq> []" "sheetName s \<noteq> []" "fetch_failed s fetched"
  proof -
    from fetch_body_failed [OF that(3)] obtain message where "fetch_body s fetched = Inl message"
      by blast
    with that(1,2) show ?thesis
      by (simp add: fetchVendorsFromSheet_def Let_def)
  qed
  have loaded: "fetch_body s fetched = Inr (vendors (fetchVendorsFromSheet s fetched))
        \<and> vendors (fetchVendorsFromSheet s fetched) \<noteq> []
        \<and> sheetError (fetchVendorsFromSheet s fetched) = None
        \<and> \<not> isFetchingVendors (fetchVendorsFromSheet s fetched)"
    if "sheetId s \<noteq> []" "sheetName s \<noteq> []" "\<not> fetch_failed s fetched"
  proof -
    from fetch_body_loaded [OF that(3)] obtain vs where "vs \<noteq> []" "fetch_body s fetched = Inr vs"
      by blast
    with that(1,2) show ?thesis
      by (simp add: fetchVendorsFromSheet_def Let_def)
  qed
  from guard failed loaded show ?thesis by blast
qed

text \<open>
  Claim C6 as stated fails on the guard: it returns before the fetching flag is touched,
  so a flag that another call in flight has set stays set.
\<close>

theorem fetch_guard_flag_counterexample:
  "isFetchingVendors
     (fetchVendorsFromSheet (example_state\<lparr>sheetId := [], isFetchingVendors := True\<rparr>)
        (Inl ''Failed to fetch''))"
  by (simp add: fetchVendorsFromSheet_def)

theorem fetchVendors_failure_witness:
  "fetchVendorsFromSheet (example_state\<lparr>sheetName := []\<rparr>) (Inl ''Failed to fetch'')
     = example_state\<lparr>sheetName := [],
                      sheetError := Some ''Please enter Spreadsheet ID and Sheet Name''\<rparr>
   \<and> fetch_failed example_state (Inr \<lparr>ok = True, text_of = Inr ''Vendor Name,Email''\<rparr>)
   \<and> sheetError (fetchVendorsFromSheet example_state
         (Inr \<lparr>ok = True, text_of = Inr ''Vendor Name,Email''\<rparr>))
       = Some ''No valid vendors found. Check column letters.''
   \<and> vendors (fetchVendorsFromSheet example_state
         (Inr \<lparr>ok = True, text_of = Inr ''Vendor Name,Email''\<rparr>))
       = [\<lparr>name = ''Acme'', email = ''sales@acme.example''\<rparr>]
   \<and> \<not> isFetchingVendors (fetchVendorsFromSheet example_state
         (Inr \<lparr>ok = True, text_of = Inr ''Vendor Name,Email''\<rparr>))
   \<and> vendors (fetchVendorsFromSheet example_state
         (Inr \<lparr>ok = True,
               text_of = Inr (''Vendor Name,Email'' @ [CHR 0x0A, CHR 0x22] @ ''Bolt, Inc'' @
                              [CHR 0x22] @ '', hi@bolt.example'' @ [CHR 0x0A])\<rparr>))
       = [\<lparr>name = ''Bolt, Inc'', email = ''hi@bolt.example''\<rparr>]"
proof -
  define none :: fetch_result where "none = Inr \<lparr>ok = True, text_of = Inr ''Vendor Name,Email''\<rparr>"
  define csv where "csv = ''Vendor Name,Email'' @ [CHR 0x0A, CHR 0x22] @ ''Bolt, Inc'' @
                              [CHR 0x22] @ '', hi@bolt.example'' @ [CHR 0x0A]"
  define one :: fetch_result where "one = Inr \<lparr>ok = True, text_of = Inr csv\<rparr>"
  have st: "sheetId example_state \<noteq> []" "sheetName example_state \<noteq> []"
    "nameCol example_state = ''A''" "emailCol example_state = ''B''"
    "vendors example_state = [\<lparr>name = ''Acme'', email = ''sales@acme.example''\<rparr>]"
    by (simp_all add: example_state_def initial_state_def)
  have lv0: "loadVendors (getColIndex ''A'') (getColIndex ''B'') (parseRows ''Vendor Name,Email'')
      = []"
    by code_simp
  have lv1: "loadVendors (getColIndex ''A'') (getColIndex ''B'') (parseRows csv)
      = [\<lparr>name = ''Bolt, Inc'', email = ''hi@bolt.example''\<rparr>]"
    unfolding csv_def by code_simp
  have failed: "fetch_failed example_state none"
    by (simp add: fetch_failed_def none_def st lv0)
  have loaded: "\<not> fetch_failed example_state one"
    by (simp add: fetch_failed_def one_def st lv1)
  have body0: "fetch_body example_state none = Inl ''No valid vendors found. Check column letters.''"
    by (simp add: fetch_body_def none_def st lv0)
  have body1: "fetch_body example_state one
      = Inr [\<lparr>name = ''Bolt, Inc'', email = ''hi@bolt.example''\<rparr>]"
    by (simp add: fetch_body_def one_def st lv1)
  have msg: "sheetError (fetchVendorsFromSheet example_state none)
      = Some ''No valid vendors found. Check column letters.''"
    using st(1,2) by (simp add: fetchVendorsFromSheet_def Let_def body0)
  have "fetchVendorsFromSheet (example_state\<lparr>sheetName := []\<rparr>) (Inl ''Failed to fetch'')
     = example_state\<lparr>sheetName := [],
                      sheetError := Some ''Please enter Spreadsheet ID and Sheet Name''\<rparr>
   \<and> fetch_failed example_state none
   \<and> sheetError (fetchVendorsFromSheet example_state none)
       = Some ''No valid vendors found. Check column letters.''
   \<and> vendors (fetchVendorsFromSheet example_state none)
       = [\<lparr>name = ''Acme'', email = ''sales@acme.example''\<rparr>]
   \<and> \<not> isFetchingVendors (fetchVendorsFromSheet example_state none)
   \<and> vendors (fetchVendorsFromSheet example_state one)
       = [\<lparr>name = ''Bolt, Inc'', email = ''hi@bolt.example''\<rparr>]"
    using fetchVendors_failure [of "example_state\<lparr>sheetName := []\<rparr>" "Inl ''Failed to fetch''"]
      fetchVendors_failure [of example_state none]
      fetchVendors_failure [of example_state one]
      st failed loaded body1 msg
    by simp
  then show ?thesis
    unfolding none_def one_def csv_def .
qed

end
